theory Spec2Isabelle
  imports Complex_Main "HOL-Library.Sublist"
begin

section \<open>Strings\<close>

text \<open>
  Go strings are byte sequences; \<^typ>\<open>string\<close> is a list of 8-bit characters.
  \<open>strings.HasPrefix\<close> and \<open>strings.Contains\<close> of the Go standard library compare
  bytes, and are written here as recursive functions.
\<close>

fun HasPrefix :: "string \<Rightarrow> string \<Rightarrow> bool" where
  "HasPrefix s [] = True"
| "HasPrefix [] (p # ps) = False"
| "HasPrefix (c # cs) (p # ps) = (c = p \<and> HasPrefix cs ps)"

fun Contains :: "string \<Rightarrow> string \<Rightarrow> bool" where
  "Contains [] substr = (substr = [])"
| "Contains (c # cs) substr = (HasPrefix (c # cs) substr \<or> Contains cs substr)"

text \<open>\<open>strings.Join\<close>.\<close>

fun Join :: "string list \<Rightarrow> string \<Rightarrow> string" where
  "Join [] sep = []"
| "Join [x] sep = x"
| "Join (x # y # ys) sep = x @ sep @ Join (y # ys) sep"

text \<open>The decimal rendering of a non-negative integer (\<open>%d\<close> of \<open>fmt.Sprintf\<close>).\<close>

definition digit :: "nat \<Rightarrow> char" where
  "digit d = char_of (48 + d)"

function itoa :: "nat \<Rightarrow> string" where
  "itoa n = (if n < 10 then [digit n] else itoa (n div 10) @ [digit (n mod 10)])"
  by pat_completeness auto
termination
  by (relation "measure (\<lambda>n. n)") auto

declare itoa.simps [simp del]

definition apostrophe :: string where
  "apostrophe = [CHR 0x27]"

definition newline :: string where
  "newline = [CHR 0x0A]"

section \<open>Identifier validators\<close>

text \<open>
  \<open>ValidateProjectID\<close>, \<open>ValidateColumnID\<close> and \<open>ValidateItemID\<close> return an \<open>error\<close>:
  \<open>None\<close> is Go's \<open>nil\<close>, \<open>Some m\<close> an error whose text is \<open>m\<close>.
\<close>

definition ValidateProjectID :: "string \<Rightarrow> string option" where
  "ValidateProjectID ident =
     (if \<not> HasPrefix ident ''PVT_'' then
        Some (''invalid project ID format: '' @ apostrophe @ ident @ apostrophe
              @ ''. Project IDs should start with 'PVT_' (e.g., 'PVT_kwDOAM6J184ACzDx'' @ apostrophe @ '')'')
      else None)"

definition ValidateColumnID :: "string \<Rightarrow> string option" where
  "ValidateColumnID ident =
     (if \<not> HasPrefix ident ''PVTFSC_'' \<and> \<not> HasPrefix ident ''PVTSSF_'' then
        Some (''invalid column ID format: '' @ apostrophe @ ident @ apostrophe
              @ ''. Column IDs should start with 'PVTFSC_' or 'PVTSSF_'' @ apostrophe)
      else None)"

definition ValidateItemID :: "string \<Rightarrow> string option" where
  "ValidateItemID ident =
     (if \<not> HasPrefix ident ''PVTI_'' then
        Some (''invalid item ID format: '' @ apostrophe @ ident @ apostrophe
              @ ''. Item IDs should start with 'PVTI_'' @ apostrophe)
      else None)"

section \<open>Error classification\<close>

text \<open>
  A \<open>GraphQLError\<close> has a message, a path and extensions. The path elements are kept by
  their \<open>%v\<close> rendering, the only way \<open>formatSingleError\<close> reads them; the extensions are
  read nowhere and are left out.
\<close>

record GraphQLError =
  Message :: string
  Path :: "string list"

text \<open>
  \<open>json.Unmarshal\<close> belongs to the Go standard library. \<open>ParseGraphQLError\<close> takes it as
  the parameter \<open>unmarshal\<close>: \<open>None\<close> when decoding fails, otherwise the decoded \<open>Errors\<close>
  slice. An \<open>error\<close> argument is \<open>None\<close> for \<open>nil\<close> and \<open>Some text\<close> for an error whose
  \<open>Error()\<close> is \<open>text\<close>. The result \<open>None\<close> is the pair \<open>(nil, false)\<close>.
\<close>

definition ParseGraphQLError ::
  "(string \<Rightarrow> GraphQLError list option) \<Rightarrow> string option \<Rightarrow> GraphQLError list option" where
  "ParseGraphQLError unmarshal err =
     (case err of
        None \<Rightarrow> None
      | Some errMsg \<Rightarrow>
          (case unmarshal errMsg of
             Some (e # es) \<Rightarrow> Some (e # es)
           | _ \<Rightarrow>
               if Contains errMsg ''Could not resolve to''
                  \<or> Contains errMsg ''was not found''
                  \<or> Contains errMsg ''must be a member''
                  \<or> Contains errMsg ''insufficient scopes''
               then Some [\<lparr>Message = errMsg, Path = []\<rparr>]
               else None))"

definition resolve_hint :: string where
  "resolve_hint = newline @ ''This usually means the item was deleted or you don't have permission to access it.''"

definition member_hint :: string where
  "member_hint = newline @ ''You need to be a member of the organization to perform this action.''"

definition scopes_hint :: string where
  "scopes_hint = newline @ ''Your GitHub token needs additional permissions. Check the required scopes in the documentation.''"

definition not_found_hint :: string where
  "not_found_hint = newline @ ''Verify that the ID is correct and that you have access to this resource.''"

text \<open>The message with its path annotation, the first half of \<open>formatSingleError\<close>.\<close>

definition with_path :: "GraphQLError \<Rightarrow> string" where
  "with_path err =
     (if length (Path err) > 0
      then Message err @ '' (at path: '' @ Join (Path err) ''.'' @ '')''
      else Message err)"

definition formatSingleError :: "GraphQLError \<Rightarrow> string" where
  "formatSingleError err =
     (let msg = with_path err in
      if Contains msg ''Could not resolve to a node with the global id'' then msg @ resolve_hint
      else if Contains msg ''must be a member of the'' then msg @ member_hint
      else if Contains msg ''insufficient scopes'' then msg @ scopes_hint
      else if Contains msg ''was not found'' then msg @ not_found_hint
      else msg)"

text \<open>The numbered lines of the multi-error branch: \<open>fmt.Sprintf("%d. %s", i+1, ...)\<close>.\<close>

fun formatted_from :: "nat \<Rightarrow> GraphQLError list \<Rightarrow> string list" where
  "formatted_from i [] = []"
| "formatted_from i (e # es) = (itoa (i + 1) @ ''. '' @ formatSingleError e) # formatted_from (i + 1) es"

text \<open>
  \<open>FormatGraphQLError\<close> calls \<open>err.Error()\<close> when parsing fails, which panics on a \<open>nil\<close>
  error: the result \<open>None\<close> is that panic.
\<close>

definition FormatGraphQLError ::
  "(string \<Rightarrow> GraphQLError list option) \<Rightarrow> string option \<Rightarrow> string option" where
  "FormatGraphQLError unmarshal err =
     (case ParseGraphQLError unmarshal err of
        None \<Rightarrow> err
      | Some errors \<Rightarrow>
          if length errors = 1 then Some (formatSingleError (hd errors))
          else Some (''Multiple errors:'' @ newline @ Join (formatted_from 0 errors) newline))"

text \<open>\<open>json.Unmarshal\<close> on a text that is not JSON: decoding fails.\<close>

definition not_json :: "string \<Rightarrow> GraphQLError list option" where
  "not_json text = None"

text \<open>An error text that matches two of the patterns of \<open>formatSingleError\<close>.\<close>

definition both_patterns :: string where
  "both_patterns = ''Could not resolve to a node with the global id of 'PVT_1': you must be a member of the acme organization''"

section \<open>Requests, results and the GraphQL client\<close>

text \<open>
  A JSON value, as the Go value of type \<open>interface{}\<close> that holds it. The arguments of a
  tool request are decoded JSON: \<open>nil\<close>, a \<open>bool\<close>, a \<open>float64\<close> (every JSON number is
  decoded to one), a \<open>string\<close>, a \<open>[]interface{}\<close> or a \<open>map[string]interface{}\<close>. A
  handler's result is the JSON text of a Go map, which holds Go integers as well: the
  model keeps the value that text denotes. A \<open>float64\<close> is kept by the rational number
  it stands for. An object that the code iterates over (a Go map, visited in no fixed
  order) is an association list, its order being one order of visit.
\<close>

datatype jvalue =
    JNull
  | JBool bool
  | JNum int
  | JFloat rat
  | JStr string
  | JArr "jvalue list"
  | JObj "(string \<times> jvalue) list"

text \<open>
  Go's conversion \<open>int(f)\<close> of a \<open>float64\<close> drops the fraction (it truncates towards
  zero). When the truncated value is not an \<open>int64\<close> the language leaves the result to the
  implementation; the \<open>amd64\<close> compiler yields the smallest \<open>int64\<close>. \<open>githubv4.Int\<close> is an
  \<open>int32\<close>, and the conversion \<open>githubv4.Int(n)\<close> of an \<open>int\<close> keeps its low 32 bits.
\<close>

definition int_of_float64 :: "rat \<Rightarrow> int" where
  "int_of_float64 f =
     (let t = (if 0 \<le> f then \<lfloor>f\<rfloor> else \<lceil>f\<rceil>)
      in if - (2 ^ 63) \<le> t \<and> t < 2 ^ 63 then t else - (2 ^ 63))"

definition int32_of_int :: "int \<Rightarrow> int" where
  "int32_of_int n = (n + 2 ^ 31) mod 2 ^ 32 - 2 ^ 31"

text \<open>\<open>request.GetArguments()\<close>: a map from parameter names to values.\<close>

type_synonym request = "string \<rightharpoonup> jvalue"

text \<open>
  A slice declared with \<open>var xs []T\<close> and grown by \<open>append\<close> is \<open>nil\<close> when nothing was
  appended, and \<open>json.Marshal\<close> writes a \<open>nil\<close> slice as \<open>null\<close>.
\<close>

definition slice_json :: "jvalue list \<Rightarrow> jvalue" where
  "slice_json xs = (if xs = [] then JNull else JArr xs)"

text \<open>Reading a result back: a key of an object, \<open>r["status"]\<close>.\<close>

definition object_get :: "jvalue \<Rightarrow> string \<Rightarrow> jvalue option" where
  "object_get v key = (case v of JObj kvs \<Rightarrow> map_of kvs key | _ \<Rightarrow> None)"

text \<open>
  Modelled from the spec: the parameter extraction helpers \<open>RequiredParam\<close>,
  \<open>OptionalParam\<close>, \<open>OptionalIntParamWithDefault\<close> and \<open>OptionalStringArrayParam\<close> are
  called by every handler and are not among the source files. The spec (4.1) says: the
  required variant fails with a missing/invalid parameter condition if the parameter is
  absent or of the wrong type; the optional variant returns a zero value (and an
  ignorable error) if absent; the optional-with-default variant substitutes a
  caller-supplied default; the array-of-string variant accepts a heterogeneous array and
  fails if any element is not a string. Go's type parameter becomes a suffix of the name.
  Every call site of the optional variants discards the error, so they return the value
  alone; the zero value of a map is \<open>nil\<close>, here \<open>None\<close>. \<open>Inl\<close> carries the text of an
  error. The integer variant returns an \<open>int\<close>, and a number of the request is a
  \<open>float64\<close>: it is converted as Go converts.
\<close>

definition RequiredParam_string :: "request \<Rightarrow> string \<Rightarrow> string + string" where
  "RequiredParam_string r p =
     (case r p of
        None \<Rightarrow> Inl (''missing required parameter: '' @ p)
      | Some (JStr s) \<Rightarrow> Inr s
      | Some _ \<Rightarrow> Inl (''parameter '' @ p @ '' is not of type string''))"

definition RequiredParam_bool :: "request \<Rightarrow> string \<Rightarrow> string + bool" where
  "RequiredParam_bool r p =
     (case r p of
        None \<Rightarrow> Inl (''missing required parameter: '' @ p)
      | Some (JBool b) \<Rightarrow> Inr b
      | Some _ \<Rightarrow> Inl (''parameter '' @ p @ '' is not of type bool''))"

definition OptionalParam_string :: "request \<Rightarrow> string \<Rightarrow> string" where
  "OptionalParam_string r p = (case r p of Some (JStr s) \<Rightarrow> s | _ \<Rightarrow> [])"

definition OptionalParam_bool :: "request \<Rightarrow> string \<Rightarrow> bool" where
  "OptionalParam_bool r p = (case r p of Some (JBool b) \<Rightarrow> b | _ \<Rightarrow> False)"

definition OptionalParam_object :: "request \<Rightarrow> string \<Rightarrow> (string \<times> jvalue) list option" where
  "OptionalParam_object r p = (case r p of Some (JObj kvs) \<Rightarrow> Some kvs | _ \<Rightarrow> None)"

definition OptionalIntParamWithDefault :: "request \<Rightarrow> string \<Rightarrow> int \<Rightarrow> int" where
  "OptionalIntParamWithDefault r p d =
     (case r p of None \<Rightarrow> d | Some (JFloat f) \<Rightarrow> int_of_float64 f | Some _ \<Rightarrow> 0)"

fun strings_of :: "string \<Rightarrow> jvalue list \<Rightarrow> string + string list" where
  "strings_of p [] = Inr []"
| "strings_of p (JStr s # vs) =
     (case strings_of p vs of Inl err \<Rightarrow> Inl err | Inr ss \<Rightarrow> Inr (s # ss))"
| "strings_of p (v # vs) = Inl (''parameter '' @ p @ '' is not of type string'')"

definition OptionalStringArrayParam :: "request \<Rightarrow> string \<Rightarrow> string + string list" where
  "OptionalStringArrayParam r p =
     (case r p of
        None \<Rightarrow> Inr []
      | Some (JArr vs) \<Rightarrow> strings_of p vs
      | Some _ \<Rightarrow> Inl (''parameter '' @ p @ '' could not be coerced to []string''))"

text \<open>
  What a handler returns, \<open>(*mcp.CallToolResult, error)\<close>: \<open>Inr\<close> is a result with a \<open>nil\<close>
  error, \<open>Inl\<close> a hard failure, which is a \<open>nil\<close> result with an error, \<open>Err\<close>, or a
  run-time panic, \<open>Panic\<close>, from which the handler does not return. A result is a
  tool-level error with its text, or the JSON object written by \<open>json.Marshal\<close>. The maps
  the handlers marshal hold strings, numbers, booleans and values decoded from JSON, for
  which \<open>json.Marshal\<close> returns no error: the branches on a marshalling error are not
  reachable and have no counterpart here.
\<close>

datatype failure = Err string | Panic

datatype CallToolResult =
    NewToolResultText "(string \<times> jvalue) list"
  | NewToolResultError string

text \<open>
  The GraphQL operations of the package. A query is named by what it looks up, a mutation
  by the mutation field of its \<open>graphql\<close> tag.
\<close>

datatype operation =
    OwnerLookup | RepositoryLookup | ProjectsList | BoardDetails
  | StatusField | ColumnsList | ColumnLookup | ItemLookup

datatype mutation =
    createProjectV2 | updateProjectV2 | deleteProjectV2
  | updateProjectV2ItemFieldValue | archiveProjectV2Item | deleteProjectV2Item

text \<open>
  What a handler does besides returning: it asks the factory for a client
  (\<open>getGQLClient(ctx)\<close>), calls \<open>client.Query\<close> with its variables, calls \<open>client.Mutate\<close>
  with its input and its variables (\<open>JNull\<close> is \<open>nil\<close>), or prints a line. A handler
  returns its result together with the list of these calls, in order.
\<close>

datatype effect =
    GetClient
  | Query operation jvalue
  | Mutate mutation jvalue jvalue
  | Printf string

type_synonym handler_return = "(failure + CallToolResult) \<times> effect list"

subsection \<open>Response shapes\<close>

text \<open>
  One record for each result struct the handlers declare, with the fields they read.
  A \<open>githubv4.DateTime\<close> is kept by its rendering under the layout
  \<open>2006-01-02T15:04:05Z\<close>.
\<close>

record owner_ids =
  user_id :: string
  organization_id :: string

record created_project =
  cp_id :: string
  cp_number :: int
  cp_title :: string
  cp_public :: bool
  cp_url :: string
  cp_description :: string

record updated_project =
  up_id :: string
  up_title :: string
  up_description :: string
  up_short_description :: string
  up_public :: bool
  up_closed :: bool
  up_url :: string
  up_updated_at :: string

record project_node =
  pn_id :: string
  pn_number :: int
  pn_title :: string
  pn_description :: string
  pn_short_description :: string
  pn_public :: bool
  pn_closed :: bool
  pn_url :: string
  pn_created_at :: string
  pn_updated_at :: string
  pn_items_total :: int

record projects_reply =
  user_nodes :: "project_node list"
  organization_nodes :: "project_node list"

record field_option =
  opt_id :: string
  opt_name :: string

record field_node =
  fn_typename :: string
  fn_field_id :: string
  fn_field_name :: string
  fn_single_id :: string
  fn_single_name :: string
  fn_single_options :: "field_option list"
  fn_iteration_id :: string
  fn_iteration_name :: string

record board =
  b_id :: string
  b_number :: int
  b_title :: string
  b_description :: string
  b_short_description :: string
  b_public :: bool
  b_closed :: bool
  b_url :: string
  b_created_at :: string
  b_updated_at :: string
  b_owner_typename :: string
  b_owner_user_login :: string
  b_owner_organization_login :: string
  b_items_total :: int
  b_fields :: "field_node list"
  b_fields_total :: int

record status_field =
  sf_id :: string
  sf_name :: string
  sf_options :: "field_option list"

record column_option =
  co_id :: string
  co_name :: string
  co_description :: string
  co_color :: string

record columns_reply =
  cr_field_id :: string
  cr_field_name :: string
  cr_options :: "column_option list"
  cr_item_option_ids :: "string list"
  cr_items_total :: int

record column_info =
  ci_field_id :: string
  ci_project_id :: string

record item_field_node =
  ifn_field_id :: string
  ifn_field_name :: string
  ifn_single_id :: string
  ifn_single_name :: string

record item_info =
  ii_project_id :: string
  ii_fields :: "item_field_node list"

text \<open>
  The remote side, seen through \<open>GetGQLClientFn\<close> and the client it returns.
  \<open>getGQLClient\<close> is the error of the factory (\<open>None\<close>: it returns a client). For each
  call site there is the answer of the remote API: it is given the effects so far and
  the call, and returns the error of \<open>client.Query\<close> or \<open>client.Mutate\<close> (\<open>Inl\<close>) or the
  filled result struct (\<open>Inr\<close>). An answer may depend on everything done before, so the
  same call can succeed once and fail later.
\<close>

record remote =
  getGQLClient :: "string option"
  ownerQuery_reply :: "effect list \<Rightarrow> effect \<Rightarrow> string + owner_ids"
  repoQuery_reply :: "effect list \<Rightarrow> effect \<Rightarrow> string + string"
  createProject_reply :: "effect list \<Rightarrow> effect \<Rightarrow> string + created_project"
  setPublic_reply :: "effect list \<Rightarrow> effect \<Rightarrow> string + unit"
  updateProject_reply :: "effect list \<Rightarrow> effect \<Rightarrow> string + updated_project"
  deleteProject_reply :: "effect list \<Rightarrow> effect \<Rightarrow> string + string"
  projectsQuery_reply :: "effect list \<Rightarrow> effect \<Rightarrow> string + projects_reply"
  boardQuery_reply :: "effect list \<Rightarrow> effect \<Rightarrow> string + board"
  statusFieldQuery_reply :: "effect list \<Rightarrow> effect \<Rightarrow> string + status_field"
  columnsQuery_reply :: "effect list \<Rightarrow> effect \<Rightarrow> string + columns_reply"
  columnQuery_reply :: "effect list \<Rightarrow> effect \<Rightarrow> string + column_info"
  moveItem_reply :: "effect list \<Rightarrow> effect \<Rightarrow> string + (string \<times> string) list"
  bulkMoveItem_reply :: "effect list \<Rightarrow> effect \<Rightarrow> string + unit"
  itemQuery_reply :: "effect list \<Rightarrow> effect \<Rightarrow> string + item_info"
  updateField_reply :: "effect list \<Rightarrow> effect \<Rightarrow> string + unit"
  archiveItem_reply :: "effect list \<Rightarrow> effect \<Rightarrow> string + unit"
  deleteItem_reply :: "effect list \<Rightarrow> effect \<Rightarrow> string + string"

text \<open>
  \<open>client.Mutate(ctx, &m, input, variables)\<close> of the \<open>githubv4\<close> client stores \<open>input\<close>
  under the key \<open>input\<close> of \<open>variables\<close>, replacing what the caller put there, and writes
  the mutation document from the types of the variables. A \<open>nil\<close> input has no type
  (\<open>reflect.TypeOf(nil)\<close> is \<open>nil\<close>): writing the document dereferences it and panics,
  before anything is sent, and the remote side is not asked: \<open>None\<close>. With an input the
  remote side answers.
\<close>

definition client_Mutate ::
  "(effect list \<Rightarrow> effect \<Rightarrow> string + 'a) \<Rightarrow> effect list \<Rightarrow> effect \<Rightarrow> (string + 'a) option" where
  "client_Mutate reply done call =
     (case call of
        Mutate m JNull variables \<Rightarrow> None
      | _ \<Rightarrow> Some (reply done call))"

section \<open>Board handlers\<close>

subsection \<open>\<open>create_project_board\<close>\<close>

text \<open>
  The result map of \<open>CreateProjectBoard\<close>, built from the project the creation mutation
  returned and the \<open>template\<close> argument.
\<close>

definition created_result :: "created_project \<Rightarrow> string \<Rightarrow> (string \<times> jvalue) list" where
  "created_result project template =
     [(''id'', JStr (cp_id project)),
      (''number'', JNum (cp_number project)),
      (''title'', JStr (cp_title project)),
      (''url'', JStr (cp_url project)),
      (''description'', JStr (cp_description project)),
      (''public'', JBool (cp_public project)),
      (''template'', JStr template)]"

text \<open>
  The creation mutation and what follows it. When \<open>public\<close> is set, a second mutation
  updates the visibility; its error is printed as a warning and dropped. Both calls of
  \<open>client.Mutate\<close> pass \<open>nil\<close> as the input and the input map under \<open>variables\<close>.
\<close>

definition CreateProjectBoard_mutate ::
  "remote \<Rightarrow> string \<Rightarrow> bool \<Rightarrow> (string \<times> jvalue) list \<Rightarrow> effect list \<Rightarrow> handler_return" where
  "CreateProjectBoard_mutate env template public input done =
     (let create = Mutate createProjectV2 JNull (JObj [(''input'', JObj input)]) in
      case client_Mutate (createProject_reply env) done create of
        None \<Rightarrow> (Inl Panic, done @ [create])
      | Some (Inl err) \<Rightarrow>
          (Inr (NewToolResultError (''failed to create project board: '' @ err)), done @ [create])
      | Some (Inr project) \<Rightarrow>
          if public then
            (let update = Mutate updateProjectV2 JNull
                   (JObj [(''input'', JObj [(''projectId'', JStr (cp_id project)),
                                            (''public'', JBool public)])])
             in case client_Mutate (setPublic_reply env) (done @ [create]) update of
                  None \<Rightarrow> (Inl Panic, done @ [create, update])
                | Some (Inl err) \<Rightarrow>
                    (Inr (NewToolResultText (created_result project template)),
                     done @ [create, update,
                             Printf (''warning: failed to update project visibility: '' @ err @ newline)])
                | Some (Inr u) \<Rightarrow>
                    (Inr (NewToolResultText (created_result project template)),
                     done @ [create, update]))
          else (Inr (NewToolResultText (created_result project template)), done @ [create]))"

text \<open>The repository lookup of a repository-level project, then the creation.\<close>

definition CreateProjectBoard_repository ::
  "remote \<Rightarrow> string \<Rightarrow> string \<Rightarrow> string \<Rightarrow> bool \<Rightarrow> (string \<times> jvalue) list \<Rightarrow> effect list
   \<Rightarrow> handler_return" where
  "CreateProjectBoard_repository env owner repository template public input done =
     (if repository \<noteq> [] then
        (let repoQuery = Query RepositoryLookup
               (JObj [(''owner'', JStr owner), (''name'', JStr repository)])
         in case repoQuery_reply env done repoQuery of
              Inl err \<Rightarrow>
                (Inr (NewToolResultError (''failed to get repository ID: '' @ err)), done @ [repoQuery])
            | Inr repositoryID \<Rightarrow>
                CreateProjectBoard_mutate env template public
                  (input @ [(''repositoryId'', JStr repositoryID)]) (done @ [repoQuery]))
      else CreateProjectBoard_mutate env template public input done)"

definition CreateProjectBoard :: "remote \<Rightarrow> request \<Rightarrow> handler_return" where
  "CreateProjectBoard env request =
     (case RequiredParam_string request ''name'' of
        Inl err \<Rightarrow> (Inr (NewToolResultError err), [])
      | Inr name \<Rightarrow>
     (case RequiredParam_string request ''owner'' of
        Inl err \<Rightarrow> (Inr (NewToolResultError err), [])
      | Inr owner \<Rightarrow>
     (let description = OptionalParam_string request ''description'';
          repository = OptionalParam_string request ''repository'';
          template = OptionalParam_string request ''template'';
          public = OptionalParam_bool request ''public''
      in case getGQLClient env of
           Some err \<Rightarrow> (Inl (Err (''failed to get GitHub GraphQL client: '' @ err)), [GetClient])
         | None \<Rightarrow>
     (let ownerQuery = Query OwnerLookup (JObj [(''login'', JStr owner)])
      in case ownerQuery_reply env [GetClient] ownerQuery of
           Inl err \<Rightarrow>
             (Inr (NewToolResultError (''failed to get owner ID: '' @ err)), [GetClient, ownerQuery])
         | Inr ids \<Rightarrow>
             if user_id ids = [] \<and> organization_id ids = [] then
               (Inr (NewToolResultError ''owner not found''), [GetClient, ownerQuery])
             else
               (let ownerID = (if user_id ids \<noteq> [] then user_id ids else organization_id ids);
                    input = [(''ownerId'', JStr ownerID), (''title'', JStr name)]
                            @ (if description \<noteq> [] then [(''description'', JStr description)] else [])
                in CreateProjectBoard_repository env owner repository template public input
                     [GetClient, ownerQuery])))))"

subsection \<open>\<open>update_project_board\<close>\<close>

text \<open>
  The optional fields are read with type assertions on the argument map; a field enters
  the mutation input only when it is present with the right type (and, for a string,
  not empty). The input map is passed under \<open>variables\<close>, and \<open>nil\<close> as the input of
  \<open>client.Mutate\<close>.
\<close>

definition string_entry :: "request \<Rightarrow> string \<Rightarrow> string \<Rightarrow> (string \<times> jvalue) list" where
  "string_entry request p key =
     (case request p of Some (JStr s) \<Rightarrow> (if s \<noteq> [] then [(key, JStr s)] else []) | _ \<Rightarrow> [])"

definition bool_entry :: "request \<Rightarrow> string \<Rightarrow> string \<Rightarrow> (string \<times> jvalue) list" where
  "bool_entry request p key = (case request p of Some (JBool b) \<Rightarrow> [(key, JBool b)] | _ \<Rightarrow> [])"

definition UpdateProjectBoard :: "remote \<Rightarrow> request \<Rightarrow> handler_return" where
  "UpdateProjectBoard env request =
     (case RequiredParam_string request ''board_id'' of
        Inl err \<Rightarrow> (Inr (NewToolResultError err), [])
      | Inr boardID \<Rightarrow>
     (case getGQLClient env of
        Some err \<Rightarrow> (Inl (Err (''failed to get GitHub GraphQL client: '' @ err)), [GetClient])
      | None \<Rightarrow>
     (let input = [(''projectId'', JStr boardID)]
                  @ string_entry request ''title'' ''title''
                  @ string_entry request ''description'' ''description''
                  @ string_entry request ''short_description'' ''shortDescription''
                  @ bool_entry request ''public'' ''public''
                  @ bool_entry request ''closed'' ''closed'';
          update = Mutate updateProjectV2 JNull (JObj [(''input'', JObj input)])
      in case client_Mutate (updateProject_reply env) [GetClient] update of
           None \<Rightarrow> (Inl Panic, [GetClient, update])
         | Some (Inl err) \<Rightarrow>
             (Inr (NewToolResultError (''failed to update project board: '' @ err)), [GetClient, update])
         | Some (Inr project) \<Rightarrow>
             (Inr (NewToolResultText
                [(''id'', JStr (up_id project)),
                 (''title'', JStr (up_title project)),
                 (''description'', JStr (up_description project)),
                 (''short_description'', JStr (up_short_description project)),
                 (''public'', JBool (up_public project)),
                 (''closed'', JBool (up_closed project)),
                 (''url'', JStr (up_url project)),
                 (''updated_at'', JStr (up_updated_at project))]),
              [GetClient, update]))))"

subsection \<open>\<open>delete_project_board\<close>\<close>

text \<open>
  The deletion is guarded by \<open>confirm\<close>. Its input is passed under \<open>variables\<close>, and \<open>nil\<close>
  as the input of \<open>client.Mutate\<close>.
\<close>

definition DeleteProjectBoard :: "remote \<Rightarrow> request \<Rightarrow> handler_return" where
  "DeleteProjectBoard env request =
     (case RequiredParam_string request ''board_id'' of
        Inl err \<Rightarrow> (Inr (NewToolResultError err), [])
      | Inr boardID \<Rightarrow>
     (case RequiredParam_bool request ''confirm'' of
        Inl err \<Rightarrow> (Inr (NewToolResultError err), [])
      | Inr confirm \<Rightarrow>
     (if \<not> confirm then
        (Inr (NewToolResultError ''deletion not confirmed - set confirm to true to delete''), [])
      else
     (case getGQLClient env of
        Some err \<Rightarrow> (Inl (Err (''failed to get GitHub GraphQL client: '' @ err)), [GetClient])
      | None \<Rightarrow>
     (let delete = Mutate deleteProjectV2 JNull
            (JObj [(''input'', JObj [(''projectId'', JStr boardID)])])
      in case client_Mutate (deleteProject_reply env) [GetClient] delete of
           None \<Rightarrow> (Inl Panic, [GetClient, delete])
         | Some (Inl err) \<Rightarrow>
             (Inr (NewToolResultError (''failed to delete project board: '' @ err)), [GetClient, delete])
         | Some (Inr deletedID) \<Rightarrow>
             (Inr (NewToolResultText [(''deleted'', JBool True), (''id'', JStr deletedID)]),
              [GetClient, delete]))))))"

subsection \<open>\<open>list_project_boards\<close>\<close>

text \<open>One entry of the \<open>projects\<close> array, tagged with the namespace it came from.\<close>

definition project_entry :: "string \<Rightarrow> project_node \<Rightarrow> jvalue" where
  "project_entry owner_type project =
     JObj [(''id'', JStr (pn_id project)),
           (''number'', JNum (pn_number project)),
           (''title'', JStr (pn_title project)),
           (''description'', JStr (pn_description project)),
           (''short_description'', JStr (pn_short_description project)),
           (''public'', JBool (pn_public project)),
           (''closed'', JBool (pn_closed project)),
           (''url'', JStr (pn_url project)),
           (''created_at'', JStr (pn_created_at project)),
           (''updated_at'', JStr (pn_updated_at project)),
           (''items_count'', JNum (pn_items_total project)),
           (''owner_type'', JStr owner_type)]"

text \<open>
  The query of \<open>ListProjectBoards\<close>: one document that selects \<open>user(login: $login)\<close> and
  \<open>organization(login: $login)\<close>, with the limit sent as a \<open>githubv4.Int\<close>.
\<close>

definition projects_query :: "string \<Rightarrow> int \<Rightarrow> bool \<Rightarrow> effect" where
  "projects_query owner limit includeClosed =
     Query ProjectsList
       (JObj [(''login'', JStr owner), (''limit'', JNum (int32_of_int limit)),
              (''includeClosed'', JBool includeClosed)])"

definition ListProjectBoards :: "remote \<Rightarrow> request \<Rightarrow> handler_return" where
  "ListProjectBoards env request =
     (case RequiredParam_string request ''owner'' of
        Inl err \<Rightarrow> (Inr (NewToolResultError err), [])
      | Inr owner \<Rightarrow>
     (let ownerType0 = OptionalParam_string request ''type'';
          ownerType = (if ownerType0 = [] then ''all'' else ownerType0);
          includeClosed = OptionalParam_bool request ''include_closed'';
          limit0 = OptionalIntParamWithDefault request ''limit'' 20;
          limit = (if limit0 > 100 then 100 else limit0)
      in case getGQLClient env of
           Some err \<Rightarrow> (Inl (Err (''failed to get GitHub GraphQL client: '' @ err)), [GetClient])
         | None \<Rightarrow>
     (let query = projects_query owner limit includeClosed
      in case projectsQuery_reply env [GetClient] query of
           Inl err \<Rightarrow>
             (Inr (NewToolResultError (''failed to list project boards: '' @ err)), [GetClient, query])
         | Inr reply \<Rightarrow>
             (let projects =
                    (if ownerType = ''user'' \<or> ownerType = ''all''
                     then map (project_entry ''user'') (user_nodes reply) else [])
                    @ (if ownerType = ''organization'' \<or> ownerType = ''all''
                       then map (project_entry ''organization'') (organization_nodes reply) else [])
              in (Inr (NewToolResultText
                    [(''projects'', slice_json projects),
                     (''total_count'', JNum (int (length projects)))]),
                  [GetClient, query])))))"

subsection \<open>\<open>get_project_board\<close>\<close>

text \<open>The description of one field, by the \<open>switch\<close> on its type name.\<close>

definition option_entry :: "field_option \<Rightarrow> jvalue" where
  "option_entry opt = JObj [(''id'', JStr (opt_id opt)), (''name'', JStr (opt_name opt))]"

definition fieldData :: "field_node \<Rightarrow> jvalue" where
  "fieldData field =
     JObj ([(''type'', JStr (fn_typename field))]
           @ (if fn_typename field = ''ProjectV2Field'' then
                [(''id'', JStr (fn_field_id field)), (''name'', JStr (fn_field_name field))]
              else if fn_typename field = ''ProjectV2SingleSelectField'' then
                [(''id'', JStr (fn_single_id field)), (''name'', JStr (fn_single_name field)),
                 (''options'', slice_json (map option_entry (fn_single_options field)))]
              else if fn_typename field = ''ProjectV2IterationField'' then
                [(''id'', JStr (fn_iteration_id field)), (''name'', JStr (fn_iteration_name field))]
              else []))"

definition board_result :: "board \<Rightarrow> (string \<times> jvalue) list" where
  "board_result project =
     (let ownerLogin =
            (if b_owner_typename project = ''User'' then b_owner_user_login project
             else if b_owner_typename project = ''Organization'' then b_owner_organization_login project
             else [])
      in [(''id'', JStr (b_id project)),
          (''number'', JNum (b_number project)),
          (''title'', JStr (b_title project)),
          (''description'', JStr (b_description project)),
          (''short_description'', JStr (b_short_description project)),
          (''public'', JBool (b_public project)),
          (''closed'', JBool (b_closed project)),
          (''url'', JStr (b_url project)),
          (''created_at'', JStr (b_created_at project)),
          (''updated_at'', JStr (b_updated_at project)),
          (''owner'', JObj [(''login'', JStr ownerLogin), (''type'', JStr (b_owner_typename project))])])"

definition GetProjectBoard :: "remote \<Rightarrow> request \<Rightarrow> handler_return" where
  "GetProjectBoard env request =
     (case RequiredParam_string request ''board_id'' of
        Inl err \<Rightarrow> (Inr (NewToolResultError err), [])
      | Inr boardID \<Rightarrow>
     (let includeFields0 = OptionalParam_bool request ''include_fields'';
          includeFields = (if includeFields0 = False then True else includeFields0);
          includeStats0 = OptionalParam_bool request ''include_stats'';
          includeStats = (if includeStats0 = False then True else includeStats0)
      in case getGQLClient env of
           Some err \<Rightarrow> (Inl (Err (''failed to get GitHub GraphQL client: '' @ err)), [GetClient])
         | None \<Rightarrow>
     (let query = Query BoardDetails (JObj [(''id'', JStr boardID)])
      in case boardQuery_reply env [GetClient] query of
           Inl err \<Rightarrow>
             (Inr (NewToolResultError (''failed to get project board: '' @ err)), [GetClient, query])
         | Inr project \<Rightarrow>
             (Inr (NewToolResultText
                (board_result project
                 @ (if includeStats then
                      [(''statistics'', JObj [(''total_items'', JNum (b_items_total project))])]
                    else [])
                 @ (if includeFields then
                      [(''fields'', slice_json (map fieldData (b_fields project))),
                       (''fields_count'', JNum (b_fields_total project))]
                    else []))),
              [GetClient, query]))))"

section \<open>Column handlers\<close>

text \<open>
  None of the four column-changing handlers has a mutation in its body: the mutation of
  \<open>CreateProjectColumn\<close> is commented out, and the other three do not ask for a client at
  all. Each puts a note on the API in the message of its result.
\<close>

subsection \<open>\<open>create_project_column\<close>\<close>

definition CreateProjectColumn :: "remote \<Rightarrow> request \<Rightarrow> handler_return" where
  "CreateProjectColumn env request =
     (case RequiredParam_string request ''board_id'' of
        Inl err \<Rightarrow> (Inr (NewToolResultError err), [])
      | Inr boardID \<Rightarrow>
     (case RequiredParam_string request ''name'' of
        Inl err \<Rightarrow> (Inr (NewToolResultError err), [])
      | Inr name \<Rightarrow>
     (let description = OptionalParam_string request ''description'';
          limit = OptionalIntParamWithDefault request ''limit'' 10;
          color = OptionalParam_string request ''color''
      in case getGQLClient env of
           Some err \<Rightarrow> (Inl (Err (''failed to get GitHub GraphQL client: '' @ err)), [GetClient])
         | None \<Rightarrow>
     (let fieldQuery = Query StatusField (JObj [(''id'', JStr boardID)])
      in case statusFieldQuery_reply env [GetClient] fieldQuery of
           Inl err \<Rightarrow>
             (Inr (NewToolResultError (''failed to get project Status field: '' @ err)),
              [GetClient, fieldQuery])
         | Inr field \<Rightarrow>
             if sf_id field = [] then
               (Inr (NewToolResultError ''project does not have a Status field''),
                [GetClient, fieldQuery])
             else
               (let newOption = JObj ([(''name'', JStr name)]
                       @ (if description \<noteq> [] then [(''description'', JStr description)] else [])
                       @ (if color \<noteq> [] then [(''color'', JStr color)] else []));
                    newOptions = map option_entry (sf_options field) @ [newOption]
                in (Inr (NewToolResultText
                      [(''field_id'', JStr (sf_id field)),
                       (''name'', JStr name),
                       (''description'', JStr description),
                       (''color'', JStr color),
                       (''limit'', JNum limit),
                       (''message'', JStr ''Column creation request submitted. Note: GitHub Projects API v2 manages columns as Status field options.'')]),
                    [GetClient, fieldQuery]))))))"

subsection \<open>\<open>update_project_column\<close>\<close>

text \<open>
  The \<open>limit\<close> argument is read with the type assertion \<open>.(float64)\<close> and enters the
  updates converted, as \<open>int(limit)\<close>.
\<close>

definition number_entry :: "request \<Rightarrow> string \<Rightarrow> string \<Rightarrow> (string \<times> jvalue) list" where
  "number_entry request p key =
     (case request p of Some (JFloat limit) \<Rightarrow> [(key, JNum (int_of_float64 limit))] | _ \<Rightarrow> [])"

definition UpdateProjectColumn :: "remote \<Rightarrow> request \<Rightarrow> handler_return" where
  "UpdateProjectColumn env request =
     (case RequiredParam_string request ''column_id'' of
        Inl err \<Rightarrow> (Inr (NewToolResultError err), [])
      | Inr columnID \<Rightarrow>
     (let updates = [(''column_id'', JStr columnID)]
                    @ string_entry request ''name'' ''name''
                    @ string_entry request ''description'' ''description''
                    @ number_entry request ''limit'' ''limit''
                    @ string_entry request ''color'' ''color''
      in (Inr (NewToolResultText
            [(''column_id'', JStr columnID),
             (''updates'', JObj updates),
             (''message'', JStr ''Column update request submitted. Note: GitHub Projects API v2 manages columns as Status field options.'')]),
          [])))"

subsection \<open>\<open>delete_project_column\<close>\<close>

definition DeleteProjectColumn :: "remote \<Rightarrow> request \<Rightarrow> handler_return" where
  "DeleteProjectColumn env request =
     (case RequiredParam_string request ''column_id'' of
        Inl err \<Rightarrow> (Inr (NewToolResultError err), [])
      | Inr columnID \<Rightarrow>
     (let archiveCards = OptionalParam_bool request ''archive_cards''
      in (Inr (NewToolResultText
            [(''column_id'', JStr columnID),
             (''archive_cards'', JBool archiveCards),
             (''message'', JStr ''Column deletion request submitted. Note: GitHub Projects API v2 manages columns as Status field options.'')]),
          [])))"

subsection \<open>\<open>reorder_project_columns\<close>\<close>

text \<open>
  The conversion loop of \<open>ReorderProjectColumns\<close>: the identifiers collected so far, or
  \<open>None\<close> at the first element that is not a string (the handler returns there).
\<close>

fun columnIDs_of :: "jvalue list \<Rightarrow> string list \<Rightarrow> string list option" where
  "columnIDs_of [] columnIDs = Some columnIDs"
| "columnIDs_of (JStr strID # rest) columnIDs = columnIDs_of rest (columnIDs @ [strID])"
| "columnIDs_of (v # rest) columnIDs = None"

definition ReorderProjectColumns :: "remote \<Rightarrow> request \<Rightarrow> handler_return" where
  "ReorderProjectColumns env request =
     (case RequiredParam_string request ''board_id'' of
        Inl err \<Rightarrow> (Inr (NewToolResultError err), [])
      | Inr boardID \<Rightarrow>
     (case request ''column_order'' of
        None \<Rightarrow> (Inr (NewToolResultError ''missing required parameter: column_order''), [])
      | Some (JArr columnOrder) \<Rightarrow>
          (case columnIDs_of columnOrder [] of
             None \<Rightarrow> (Inr (NewToolResultError ''column_order must contain string IDs''), [])
           | Some columnIDs \<Rightarrow>
               (Inr (NewToolResultText
                  [(''board_id'', JStr boardID),
                   (''column_order'', slice_json (map JStr columnIDs)),
                   (''message'', JStr ''Column reorder request submitted. Note: GitHub Projects API v2 manages columns as Status field options with specific ordering.'')]),
                []))
      | Some _ \<Rightarrow> (Inr (NewToolResultError ''column_order must be an array''), [])))"

subsection \<open>\<open>list_project_columns\<close>\<close>

text \<open>The counting loop: \<open>columnCounts[optionID]++\<close> for every item with an option.\<close>

fun count_items :: "string list \<Rightarrow> (string \<rightharpoonup> int) \<Rightarrow> (string \<rightharpoonup> int)" where
  "count_items [] columnCounts = columnCounts"
| "count_items (optionID # rest) columnCounts =
     count_items rest
       (if optionID \<noteq> []
        then columnCounts(optionID \<mapsto> (case columnCounts optionID of None \<Rightarrow> 0 | Some n \<Rightarrow> n) + 1)
        else columnCounts)"

definition column_entry :: "(string \<rightharpoonup> int) \<Rightarrow> nat \<times> column_option \<Rightarrow> jvalue" where
  "column_entry columnCounts io =
     (case io of (i, option) \<Rightarrow>
        JObj [(''id'', JStr (co_id option)),
              (''name'', JStr (co_name option)),
              (''description'', JStr (co_description option)),
              (''color'', JStr (co_color option)),
              (''position'', JNum (int i)),
              (''item_count'', JNum (case columnCounts (co_id option) of None \<Rightarrow> 0 | Some n \<Rightarrow> n))])"

definition ListProjectColumns :: "remote \<Rightarrow> request \<Rightarrow> handler_return" where
  "ListProjectColumns env request =
     (case RequiredParam_string request ''board_id'' of
        Inl err \<Rightarrow> (Inr (NewToolResultError err), [])
      | Inr boardID \<Rightarrow>
     (case getGQLClient env of
        Some err \<Rightarrow> (Inl (Err (''failed to get GitHub GraphQL client: '' @ err)), [GetClient])
      | None \<Rightarrow>
     (let query = Query ColumnsList (JObj [(''id'', JStr boardID)])
      in case columnsQuery_reply env [GetClient] query of
           Inl err \<Rightarrow>
             (Inr (NewToolResultError (''failed to list project columns: '' @ err)), [GetClient, query])
         | Inr reply \<Rightarrow>
             (let columnCounts = count_items (cr_item_option_ids reply) Map.empty;
                  columns = map (column_entry columnCounts) (enumerate 0 (cr_options reply))
              in (Inr (NewToolResultText
                    [(''board_id'', JStr boardID),
                     (''field_id'', JStr (cr_field_id reply)),
                     (''field_name'', JStr (cr_field_name reply)),
                     (''columns'', slice_json columns),
                     (''total_count'', JNum (int (length columns))),
                     (''total_items'', JNum (cr_items_total reply))]),
                  [GetClient, query])))))"

subsection \<open>\<open>get_project_column\<close>\<close>

definition GetProjectColumn :: "remote \<Rightarrow> request \<Rightarrow> handler_return" where
  "GetProjectColumn env request =
     (case RequiredParam_string request ''column_id'' of
        Inl err \<Rightarrow> (Inr (NewToolResultError err), [])
      | Inr columnID \<Rightarrow>
          (Inr (NewToolResultText
             [(''column_id'', JStr columnID),
              (''message'', JStr ''Column details retrieved. Note: GitHub Projects API v2 manages columns as Status field options.''),
              (''info'', JStr ''Use list_project_columns to get all columns with their current state.'')]),
           []))"

section \<open>Card handlers\<close>

text \<open>
  The handlers of the GraphQL implementation ask the factory for a client first and read
  their arguments afterwards; an error of the factory is returned as a tool-level error.
  Their mutations pass the input map as the input of \<open>client.Mutate\<close> and \<open>nil\<close> variables:
  the input is not \<open>nil\<close>, and the remote side answers.
\<close>

definition item_field_input :: "string \<Rightarrow> string \<Rightarrow> string \<Rightarrow> jvalue \<Rightarrow> jvalue" where
  "item_field_input projectID itemID fieldID v =
     JObj [(''projectId'', JStr projectID), (''itemId'', JStr itemID),
           (''fieldId'', JStr fieldID), (''value'', v)]"

text \<open>The mutation that moves one card to the column \<open>columnID\<close>.\<close>

definition move_mutation :: "string \<Rightarrow> string \<Rightarrow> string \<Rightarrow> string \<Rightarrow> effect" where
  "move_mutation projectID fieldID columnID cardID =
     Mutate updateProjectV2ItemFieldValue
       (item_field_input projectID cardID fieldID (JObj [(''singleSelectOptionId'', JStr columnID)]))
       JNull"

subsection \<open>\<open>move_project_card\<close>\<close>

text \<open>The name of the option of the first returned field value whose field is \<open>fieldID\<close>.\<close>

fun updatedColumn_of :: "string \<Rightarrow> (string \<times> string) list \<Rightarrow> string" where
  "updatedColumn_of fieldID [] = []"
| "updatedColumn_of fieldID ((fid, name) # rest) =
     (if fid = fieldID then name else updatedColumn_of fieldID rest)"

definition MoveProjectCard :: "remote \<Rightarrow> request \<Rightarrow> handler_return" where
  "MoveProjectCard env request =
     (case getGQLClient env of
        Some err \<Rightarrow> (Inr (NewToolResultError (''Failed to get GraphQL client: '' @ err)), [GetClient])
      | None \<Rightarrow>
     (case RequiredParam_string request ''card_id'' of
        Inl err \<Rightarrow> (Inr (NewToolResultError err), [GetClient])
      | Inr cardID \<Rightarrow>
     (case RequiredParam_string request ''column_id'' of
        Inl err \<Rightarrow> (Inr (NewToolResultError err), [GetClient])
      | Inr columnID \<Rightarrow>
     (let columnQuery = Query ColumnLookup (JObj [(''columnId'', JStr columnID)])
      in case columnQuery_reply env [GetClient] columnQuery of
           Inl err \<Rightarrow>
             (Inr (NewToolResultError (''Failed to query column: '' @ err)), [GetClient, columnQuery])
         | Inr column \<Rightarrow>
     (let fieldID = ci_field_id column;
          projectID = ci_project_id column;
          move = move_mutation projectID fieldID columnID cardID
      in case moveItem_reply env [GetClient, columnQuery] move of
           Inl err \<Rightarrow>
             (Inr (NewToolResultError (''Failed to move card: '' @ err)), [GetClient, columnQuery, move])
         | Inr nodes \<Rightarrow>
             (Inr (NewToolResultText
                [(''success'', JBool True),
                 (''card_id'', JStr cardID),
                 (''column_id'', JStr columnID),
                 (''column_name'', JStr (updatedColumn_of fieldID nodes)),
                 (''project_id'', JStr projectID),
                 (''message'', JStr ''Card moved successfully'')]),
              [GetClient, columnQuery, move]))))))"

subsection \<open>\<open>update_project_card\<close>\<close>

text \<open>
  The inner loop: the identifier of the first project field whose name, as a plain field
  or as a single-select field, is \<open>fieldName\<close>; empty when there is none.
\<close>

fun fieldID_of :: "string \<Rightarrow> item_field_node list \<Rightarrow> string" where
  "fieldID_of fieldName [] = []"
| "fieldID_of fieldName (field # rest) =
     (if ifn_field_name field = fieldName \<or> ifn_single_name field = fieldName
      then (if ifn_field_id field \<noteq> [] then ifn_field_id field else ifn_single_id field)
      else fieldID_of fieldName rest)"

text \<open>The type switch on the value of a field.\<close>

fun field_value :: "jvalue \<Rightarrow> jvalue" where
  "field_value (JStr v) = JObj [(''text'', JStr v)]"
| "field_value (JFloat v) = JObj [(''number'', JFloat v)]"
| "field_value (JBool v) = JObj [(''text'', JStr (if v then ''true'' else ''false''))]"
| "field_value v = v"

text \<open>
  The outer loop, over the \<open>fields\<close> argument in one order of visit: a name with no field
  identifier is skipped; every other name costs one mutation, and the entry appended to
  \<open>updates\<close> is chosen by its error: \<open>updated\<close>, or \<open>failed\<close> with the text of the error.
\<close>

definition update_entry :: "string \<Rightarrow> jvalue \<Rightarrow> string + unit \<Rightarrow> jvalue" where
  "update_entry fieldName v reply =
     (case reply of
        Inr u \<Rightarrow> JObj [(''field'', JStr fieldName), (''value'', v), (''status'', JStr ''updated'')]
      | Inl err \<Rightarrow> JObj [(''field'', JStr fieldName), (''value'', v), (''status'', JStr ''failed''),
                        (''error'', JStr err)])"

definition field_mutation :: "string \<Rightarrow> string \<Rightarrow> string \<Rightarrow> jvalue \<Rightarrow> effect" where
  "field_mutation projectID cardID fieldID v =
     Mutate updateProjectV2ItemFieldValue
       (item_field_input projectID cardID fieldID (field_value v)) JNull"

fun update_fields ::
  "remote \<Rightarrow> string \<Rightarrow> string \<Rightarrow> item_field_node list \<Rightarrow> (string \<times> jvalue) list
   \<Rightarrow> jvalue list \<Rightarrow> effect list \<Rightarrow> jvalue list \<times> effect list" where
  "update_fields env projectID cardID nodes [] updates done = (updates, done)"
| "update_fields env projectID cardID nodes ((fieldName, v) # rest) updates done =
     (let fieldID = fieldID_of fieldName nodes in
      if fieldID = [] then update_fields env projectID cardID nodes rest updates done
      else
        (let mutate = field_mutation projectID cardID fieldID v
         in update_fields env projectID cardID nodes rest
              (updates @ [update_entry fieldName v (updateField_reply env done mutate)])
              (done @ [mutate])))"

definition UpdateProjectCard :: "remote \<Rightarrow> request \<Rightarrow> handler_return" where
  "UpdateProjectCard env request =
     (case getGQLClient env of
        Some err \<Rightarrow> (Inr (NewToolResultError (''Failed to get GraphQL client: '' @ err)), [GetClient])
      | None \<Rightarrow>
     (case RequiredParam_string request ''card_id'' of
        Inl err \<Rightarrow> (Inr (NewToolResultError err), [GetClient])
      | Inr cardID \<Rightarrow>
     (let fields = (case OptionalParam_object request ''fields'' of None \<Rightarrow> [] | Some kvs \<Rightarrow> kvs);
          itemQuery = Query ItemLookup (JObj [(''itemId'', JStr cardID)])
      in case itemQuery_reply env [GetClient] itemQuery of
           Inl err \<Rightarrow>
             (Inr (NewToolResultError (''Failed to query item: '' @ err)), [GetClient, itemQuery])
         | Inr item \<Rightarrow>
     (let projectID = ii_project_id item
      in case update_fields env projectID cardID (ii_fields item) fields [] [GetClient, itemQuery] of
           (updates, done) \<Rightarrow>
             (Inr (NewToolResultText
                [(''success'', JBool True),
                 (''card_id'', JStr cardID),
                 (''project_id'', JStr projectID),
                 (''updates'', slice_json updates),
                 (''message'', JStr (''Updated '' @ itoa (length updates) @ '' fields''))]),
              done)))))"

subsection \<open>\<open>remove_card_from_project\<close>\<close>

definition RemoveCardFromProject :: "remote \<Rightarrow> request \<Rightarrow> handler_return" where
  "RemoveCardFromProject env request =
     (case getGQLClient env of
        Some err \<Rightarrow> (Inr (NewToolResultError (''Failed to get GraphQL client: '' @ err)), [GetClient])
      | None \<Rightarrow>
     (case RequiredParam_string request ''card_id'' of
        Inl err \<Rightarrow> (Inr (NewToolResultError err), [GetClient])
      | Inr cardID \<Rightarrow>
     (let archive = OptionalParam_bool request ''archive''
      in if archive then
           (let mutate = Mutate archiveProjectV2Item (JObj [(''itemId'', JStr cardID)]) JNull
            in case archiveItem_reply env [GetClient] mutate of
                 Inl err \<Rightarrow>
                   (Inr (NewToolResultError (''Failed to archive card: '' @ err)), [GetClient, mutate])
               | Inr u \<Rightarrow>
                   (Inr (NewToolResultText
                      [(''success'', JBool True),
                       (''card_id'', JStr cardID),
                       (''archived'', JBool True),
                       (''message'', JStr ''Card archived successfully'')]),
                    [GetClient, mutate]))
         else
           (let mutate = Mutate deleteProjectV2Item (JObj [(''itemId'', JStr cardID)]) JNull
            in case deleteItem_reply env [GetClient] mutate of
                 Inl err \<Rightarrow>
                   (Inr (NewToolResultError (''Failed to delete card: '' @ err)), [GetClient, mutate])
               | Inr deletedItemId \<Rightarrow>
                   (Inr (NewToolResultText
                      [(''success'', JBool True),
                       (''card_id'', JStr deletedItemId),
                       (''deleted'', JBool True),
                       (''message'', JStr ''Card removed from project successfully'')]),
                    [GetClient, mutate])))))"

subsection \<open>\<open>bulk_move_cards\<close>\<close>

text \<open>
  The loop over the card identifiers: one mutation for each, in order, each awaited before
  the next; the entry appended to \<open>results\<close> is chosen by its error: \<open>failed\<close> with the
  text of the error, or \<open>moved\<close>.
\<close>

definition move_entry :: "string \<Rightarrow> string + unit \<Rightarrow> jvalue" where
  "move_entry cardID reply =
     (case reply of
        Inl err \<Rightarrow> JObj [(''card_id'', JStr cardID), (''status'', JStr ''failed''),
                        (''error'', JStr err)]
      | Inr u \<Rightarrow> JObj [(''card_id'', JStr cardID), (''status'', JStr ''moved'')])"

fun move_cards ::
  "remote \<Rightarrow> string \<Rightarrow> string \<Rightarrow> string \<Rightarrow> string list \<Rightarrow> jvalue list \<Rightarrow> effect list
   \<Rightarrow> jvalue list \<times> effect list" where
  "move_cards env projectID fieldID columnID [] results done = (results, done)"
| "move_cards env projectID fieldID columnID (cardID # rest) results done =
     (let mutate = move_mutation projectID fieldID columnID cardID
      in move_cards env projectID fieldID columnID rest
           (results @ [move_entry cardID (bulkMoveItem_reply env done mutate)])
           (done @ [mutate]))"

text \<open>The counting loop: \<open>if r["status"] == "moved" { successCount++ }\<close>.\<close>

fun count_moved :: "jvalue list \<Rightarrow> nat" where
  "count_moved [] = 0"
| "count_moved (r # rest) =
     (if object_get r ''status'' = Some (JStr ''moved'') then 1 else 0) + count_moved rest"

definition BulkMoveCards :: "remote \<Rightarrow> request \<Rightarrow> handler_return" where
  "BulkMoveCards env request =
     (case getGQLClient env of
        Some err \<Rightarrow> (Inr (NewToolResultError (''Failed to get GraphQL client: '' @ err)), [GetClient])
      | None \<Rightarrow>
     (case OptionalStringArrayParam request ''card_ids'' of
        Inl err \<Rightarrow> (Inr (NewToolResultError err), [GetClient])
      | Inr cardIDs \<Rightarrow>
     (if length cardIDs = 0 then
        (Inr (NewToolResultError ''card_ids array cannot be empty''), [GetClient])
      else
     (case RequiredParam_string request ''target_column_id'' of
        Inl err \<Rightarrow> (Inr (NewToolResultError err), [GetClient])
      | Inr columnID \<Rightarrow>
     (let columnQuery = Query ColumnLookup (JObj [(''columnId'', JStr columnID)])
      in case columnQuery_reply env [GetClient] columnQuery of
           Inl err \<Rightarrow>
             (Inr (NewToolResultError (''Failed to query column: '' @ err)), [GetClient, columnQuery])
         | Inr column \<Rightarrow>
     (let fieldID = ci_field_id column;
          projectID = ci_project_id column
      in case move_cards env projectID fieldID columnID cardIDs [] [GetClient, columnQuery] of
           (results, done) \<Rightarrow>
             (let successCount = count_moved results
              in (Inr (NewToolResultText
                    [(''success'', JBool (successCount > 0)),
                     (''total_cards'', JNum (int (length cardIDs))),
                     (''moved_count'', JNum (int successCount)),
                     (''failed_count'', JNum (int (length cardIDs) - int successCount)),
                     (''target_column_id'', JStr columnID),
                     (''results'', slice_json results),
                     (''message'', JStr (''Moved '' @ itoa successCount @ '' of ''
                                         @ itoa (length cardIDs) @ '' cards successfully''))]),
                  done))))))))"

section \<open>The simplified card handlers\<close>

text \<open>
  A second set of handlers under the same tool names, the one the package's test pairs
  with the card tools. They validate their arguments and echo them; the client factory
  they are given is never called.
\<close>

definition AddCardToProjectSimple :: "remote \<Rightarrow> request \<Rightarrow> handler_return" where
  "AddCardToProjectSimple env request =
     (case RequiredParam_string request ''board_id'' of
        Inl err \<Rightarrow> (Inr (NewToolResultError err), [])
      | Inr boardID \<Rightarrow>
     (case RequiredParam_string request ''content_id'' of
        Inl err \<Rightarrow> (Inr (NewToolResultError err), [])
      | Inr contentID \<Rightarrow>
     (let columnID = OptionalParam_string request ''column_id''
      in (Inr (NewToolResultText
            ([(''board_id'', JStr boardID),
              (''content_id'', JStr contentID),
              (''message'', JStr ''Card addition initiated. Note: GitHub Projects API v2 mutations require specific GraphQL implementation.'')]
             @ (if columnID \<noteq> [] then [(''column_id'', JStr columnID)] else []))),
          []))))"

definition MoveProjectCardSimple :: "remote \<Rightarrow> request \<Rightarrow> handler_return" where
  "MoveProjectCardSimple env request =
     (case RequiredParam_string request ''card_id'' of
        Inl err \<Rightarrow> (Inr (NewToolResultError err), [])
      | Inr cardID \<Rightarrow>
     (case RequiredParam_string request ''column_id'' of
        Inl err \<Rightarrow> (Inr (NewToolResultError err), [])
      | Inr columnID \<Rightarrow>
     (let position0 = OptionalParam_string request ''position'';
          position = (if position0 = [] then ''bottom'' else position0)
      in (Inr (NewToolResultText
            [(''card_id'', JStr cardID),
             (''column_id'', JStr columnID),
             (''position'', JStr position),
             (''message'', JStr ''Card move operation initiated'')]),
          []))))"

definition UpdateProjectCardSimple :: "remote \<Rightarrow> request \<Rightarrow> handler_return" where
  "UpdateProjectCardSimple env request =
     (case RequiredParam_string request ''card_id'' of
        Inl err \<Rightarrow> (Inr (NewToolResultError err), [])
      | Inr cardID \<Rightarrow>
     (let fields = OptionalParam_object request ''fields''
      in (Inr (NewToolResultText
            [(''card_id'', JStr cardID),
             (''fields'', (case fields of None \<Rightarrow> JNull | Some kvs \<Rightarrow> JObj kvs)),
             (''message'', JStr ''Card update request submitted'')]),
          [])))"

definition RemoveCardFromProjectSimple :: "remote \<Rightarrow> request \<Rightarrow> handler_return" where
  "RemoveCardFromProjectSimple env request =
     (case RequiredParam_string request ''card_id'' of
        Inl err \<Rightarrow> (Inr (NewToolResultError err), [])
      | Inr cardID \<Rightarrow>
     (let archive = OptionalParam_bool request ''archive''
      in (Inr (NewToolResultText
            [(''card_id'', JStr cardID),
             (''archived'', JBool archive),
             (''message'', JStr ''Card removal/archive initiated'')]),
          [])))"

definition BulkMoveCardsSimple :: "remote \<Rightarrow> request \<Rightarrow> handler_return" where
  "BulkMoveCardsSimple env request =
     (case OptionalStringArrayParam request ''card_ids'' of
        Inl err \<Rightarrow> (Inr (NewToolResultError err), [])
      | Inr cardIDs \<Rightarrow>
     (if length cardIDs = 0 then
        (Inr (NewToolResultError ''card_ids array cannot be empty''), [])
      else
     (case RequiredParam_string request ''target_column_id'' of
        Inl err \<Rightarrow> (Inr (NewToolResultError err), [])
      | Inr targetColumnID \<Rightarrow>
          (Inr (NewToolResultText
             [(''cards_moved'', JNum (int (length cardIDs))),
              (''target_column_id'', JStr targetColumnID),
              (''message'', JStr (''Initiated bulk move of '' @ itoa (length cardIDs) @ '' cards''))]),
           []))))"

section \<open>A client stub\<close>

text \<open>
  A remote side for concrete runs: the factory returns a client, and every call is
  answered with a fixed value unless \<open>fails\<close> holds of the effects so far and the call,
  in which case the call returns an error.
\<close>

definition answer :: "(effect list \<Rightarrow> effect \<Rightarrow> bool) \<Rightarrow> 'a \<Rightarrow> effect list \<Rightarrow> effect \<Rightarrow> string + 'a" where
  "answer fails v done call = (if fails done call then Inl ''remote error'' else Inr v)"

definition sample_project :: created_project where
  "sample_project =
     \<lparr>cp_id = ''PVT_1'', cp_number = 1, cp_title = ''Roadmap'', cp_public = False,
      cp_url = ''https://github.com/users/octocat/projects/1'', cp_description = []\<rparr>"

definition sample_node :: "string \<Rightarrow> project_node" where
  "sample_node ident =
     \<lparr>pn_id = ident, pn_number = 1, pn_title = ''Roadmap'', pn_description = [],
      pn_short_description = [], pn_public = False, pn_closed = False, pn_url = [],
      pn_created_at = ''2024-01-01T00:00:00Z'', pn_updated_at = ''2024-01-02T00:00:00Z'',
      pn_items_total = 3\<rparr>"

definition sample_board :: board where
  "sample_board =
     \<lparr>b_id = ''PVT_1'', b_number = 1, b_title = ''Roadmap'', b_description = [],
      b_short_description = [], b_public = False, b_closed = False, b_url = [],
      b_created_at = ''2024-01-01T00:00:00Z'', b_updated_at = ''2024-01-02T00:00:00Z'',
      b_owner_typename = ''User'', b_owner_user_login = ''octocat'',
      b_owner_organization_login = [], b_items_total = 3,
      b_fields = [\<lparr>fn_typename = ''ProjectV2Field'', fn_field_id = ''PVTF_1'',
                   fn_field_name = ''Title'', fn_single_id = [], fn_single_name = [],
                   fn_single_options = [], fn_iteration_id = [], fn_iteration_name = []\<rparr>],
      b_fields_total = 1\<rparr>"

definition stub :: "(effect list \<Rightarrow> effect \<Rightarrow> bool) \<Rightarrow> remote" where
  "stub fails =
     \<lparr>getGQLClient = None,
      ownerQuery_reply = answer fails \<lparr>user_id = ''U_1'', organization_id = []\<rparr>,
      repoQuery_reply = answer fails ''R_1'',
      createProject_reply = answer fails sample_project,
      setPublic_reply = answer fails (),
      updateProject_reply = answer fails
        \<lparr>up_id = ''PVT_1'', up_title = ''Roadmap'', up_description = [], up_short_description = [],
         up_public = False, up_closed = False, up_url = [], up_updated_at = ''2024-01-02T00:00:00Z''\<rparr>,
      deleteProject_reply = answer fails ''PVT_1'',
      projectsQuery_reply = answer fails
        \<lparr>user_nodes = [sample_node ''PVT_1''], organization_nodes = [sample_node ''PVT_2'']\<rparr>,
      boardQuery_reply = answer fails sample_board,
      statusFieldQuery_reply = answer fails
        \<lparr>sf_id = ''PVTSSF_1'', sf_name = ''Status'',
         sf_options = [\<lparr>opt_id = ''a1'', opt_name = ''Todo''\<rparr>]\<rparr>,
      columnsQuery_reply = answer fails
        \<lparr>cr_field_id = ''PVTSSF_1'', cr_field_name = ''Status'',
         cr_options = [\<lparr>co_id = ''a1'', co_name = ''Todo'', co_description = [], co_color = ''GRAY''\<rparr>],
         cr_item_option_ids = [''a1'', [], ''a1''], cr_items_total = 3\<rparr>,
      columnQuery_reply = answer fails \<lparr>ci_field_id = ''PVTSSF_1'', ci_project_id = ''PVT_1''\<rparr>,
      moveItem_reply = answer fails [(''PVTSSF_1'', ''Todo'')],
      bulkMoveItem_reply = answer fails (),
      itemQuery_reply = answer fails
        \<lparr>ii_project_id = ''PVT_1'',
         ii_fields = [\<lparr>ifn_field_id = ''PVTF_1'', ifn_field_name = ''Title'',
                       ifn_single_id = [], ifn_single_name = []\<rparr>,
                      \<lparr>ifn_field_id = [], ifn_field_name = [],
                       ifn_single_id = ''PVTSSF_1'', ifn_single_name = ''Status''\<rparr>,
                      \<lparr>ifn_field_id = ''PVTF_2'', ifn_field_name = ''Estimate'',
                       ifn_single_id = [], ifn_single_name = []\<rparr>]\<rparr>,
      updateField_reply = answer fails (),
      archiveItem_reply = answer fails (),
      deleteItem_reply = answer fails ''PVTI_1''\<rparr>"

text \<open>No call fails; every call fails; exactly the call made after \<open>n\<close> effects fails.\<close>

definition never :: "effect list \<Rightarrow> effect \<Rightarrow> bool" where
  "never done call = False"

definition always :: "effect list \<Rightarrow> effect \<Rightarrow> bool" where
  "always done call = True"

definition after :: "nat \<Rightarrow> effect list \<Rightarrow> effect \<Rightarrow> bool" where
  "after n done call = (length done = n)"

text \<open>The answers of a remote side on which every mutation fails and every query succeeds.\<close>

definition mutations_fail :: "effect list \<Rightarrow> effect \<Rightarrow> bool" where
  "mutations_fail sofar call = (case call of Mutate m i v \<Rightarrow> True | _ \<Rightarrow> False)"

section \<open>Sample requests\<close>

text \<open>A request for a public board.\<close>

definition public_request :: request where
  "public_request = [''name'' \<mapsto> JStr ''Roadmap'', ''owner'' \<mapsto> JStr ''octocat'', ''public'' \<mapsto> JBool True]"

text \<open>A request for the boards of a user.\<close>

definition user_boards_request :: request where
  "user_boards_request = [''owner'' \<mapsto> JStr ''octocat'', ''type'' \<mapsto> JStr ''user'']"

text \<open>A request for boards with a limit of \<open>-3000000000\<close>, which is not an \<open>int32\<close>.\<close>

definition wrapping_limit_request :: request where
  "wrapping_limit_request = [''owner'' \<mapsto> JStr ''octocat'', ''limit'' \<mapsto> JFloat (- 3000000000)]"

text \<open>A request for a board with both optional sections switched off.\<close>

definition flags_off_request :: request where
  "flags_off_request =
     [''board_id'' \<mapsto> JStr ''PVT_1'', ''include_stats'' \<mapsto> JBool False,
      ''include_fields'' \<mapsto> JBool False]"

text \<open>A request to move three cards to the column \<open>a1\<close>.\<close>

definition bulk_request :: request where
  "bulk_request =
     [''card_ids'' \<mapsto> JArr [JStr ''PVTI_1'', JStr ''PVTI_2'', JStr ''PVTI_3''],
      ''target_column_id'' \<mapsto> JStr ''a1'']"

text \<open>
  A request to update four fields of a card, the second of which is not a field of the
  sample item, and the last of which is a number.
\<close>

definition card_request :: request where
  "card_request =
     [''card_id'' \<mapsto> JStr ''PVTI_1'',
      ''fields'' \<mapsto> JObj [(''Title'', JStr ''Plan''), (''Nope'', JFloat 1), (''Status'', JStr ''Done''),
                           (''Estimate'', JFloat (5 / 2))]]"

text \<open>
  A request holding the required parameters of each of the column tools, and a limit
  of 2.7.
\<close>

definition column_request :: request where
  "column_request =
     [''board_id'' \<mapsto> JStr ''PVT_1'', ''column_id'' \<mapsto> JStr ''a1'', ''name'' \<mapsto> JStr ''Doing'',
      ''limit'' \<mapsto> JFloat (27 / 10),
      ''column_order'' \<mapsto> JArr [JStr ''a2'', JStr ''a1'']]"

text \<open>A request to update a column with a limit of \<open>1e19\<close>, which is not an \<open>int64\<close>.\<close>

definition huge_limit_request :: request where
  "huge_limit_request = [''column_id'' \<mapsto> JStr ''a1'', ''limit'' \<mapsto> JFloat (10 ^ 19)]"

text \<open>A request without arguments.\<close>

definition no_arguments :: request where
  "no_arguments = Map.empty"

section \<open>Observations on a run\<close>

text \<open>A result is a tool-level error: \<open>mcp.NewToolResultError\<close> with a \<open>nil\<close> error.\<close>

definition tool_error :: "handler_return \<Rightarrow> bool" where
  "tool_error r = (case fst r of Inr (NewToolResultError msg) \<Rightarrow> True | _ \<Rightarrow> False)"

text \<open>
  The fields of a request that \<open>update_project_card\<close> finds among the fields of the item
  (the others are skipped by the loop, \<open>continue\<close>), the mutation it makes for one of
  them, and the reply of the remote side to the \<open>k\<close>-th of these mutations.
\<close>

definition resolvable :: "item_field_node list \<Rightarrow> (string \<times> jvalue) list \<Rightarrow> (string \<times> jvalue) list" where
  "resolvable nodes fs = filter (\<lambda>nv. fieldID_of (fst nv) nodes \<noteq> []) fs"

definition field_call :: "string \<Rightarrow> string \<Rightarrow> item_field_node list \<Rightarrow> string \<times> jvalue \<Rightarrow> effect" where
  "field_call projectID cardID nodes nv =
     field_mutation projectID cardID (fieldID_of (fst nv) nodes) (snd nv)"

definition field_reply :: "remote \<Rightarrow> string \<Rightarrow> item_info \<Rightarrow> (string \<times> jvalue) list \<Rightarrow> nat \<Rightarrow> string + unit" where
  "field_reply env cardID item fs k =
     (let todo = resolvable (ii_fields item) fs;
          call = field_call (ii_project_id item) cardID (ii_fields item)
      in updateField_reply env
           ([GetClient, Query ItemLookup (JObj [(''itemId'', JStr cardID)])] @ map call (take k todo))
           (call (todo ! k)))"

section \<open>The tools and their required parameters\<close>

text \<open>
  Each constructor returns a tool, with a name and a schema, and its handler. The schema
  declares parameters with \<open>mcp.WithString\<close>, \<open>mcp.WithBoolean\<close>, \<open>mcp.WithArray\<close>, some
  of them \<open>mcp.Required()\<close>. A request lacks a required parameter when the parameter is
  absent or its value is not of the declared type.
\<close>

datatype param_type = PString | PBoolean | PArray

fun has_type :: "param_type \<Rightarrow> jvalue option \<Rightarrow> bool" where
  "has_type PString (Some (JStr s)) = True"
| "has_type PBoolean (Some (JBool b)) = True"
| "has_type PArray (Some (JArr vs)) = True"
| "has_type t v = False"

definition lacks :: "request \<Rightarrow> (string \<times> param_type) list \<Rightarrow> bool" where
  "lacks request required = list_ex (\<lambda>pt. \<not> has_type (snd pt) (request (fst pt))) required"

text \<open>The tools of \<open>projects.go\<close>, with the parameters their schemas require.\<close>

definition board_tools :: "(string \<times> (string \<times> param_type) list \<times> (remote \<Rightarrow> request \<Rightarrow> handler_return)) list" where
  "board_tools =
     [(''create_project_board'', [(''name'', PString), (''owner'', PString)], CreateProjectBoard),
      (''update_project_board'', [(''board_id'', PString)], UpdateProjectBoard),
      (''delete_project_board'', [(''board_id'', PString), (''confirm'', PBoolean)], DeleteProjectBoard),
      (''list_project_boards'', [(''owner'', PString)], ListProjectBoards),
      (''get_project_board'', [(''board_id'', PString)], GetProjectBoard)]"

text \<open>The column tools.\<close>

definition column_tools :: "(string \<times> (string \<times> param_type) list \<times> (remote \<Rightarrow> request \<Rightarrow> handler_return)) list" where
  "column_tools =
     [(''create_project_column'', [(''board_id'', PString), (''name'', PString)], CreateProjectColumn),
      (''update_project_column'', [(''column_id'', PString)], UpdateProjectColumn),
      (''delete_project_column'', [(''column_id'', PString)], DeleteProjectColumn),
      (''reorder_project_columns'', [(''board_id'', PString), (''column_order'', PArray)], ReorderProjectColumns),
      (''list_project_columns'', [(''board_id'', PString)], ListProjectColumns),
      (''get_project_column'', [(''column_id'', PString)], GetProjectColumn)]"

text \<open>The card tools that call the GraphQL API.\<close>

definition card_tools :: "(string \<times> (string \<times> param_type) list \<times> (remote \<Rightarrow> request \<Rightarrow> handler_return)) list" where
  "card_tools =
     [(''move_project_card'', [(''card_id'', PString), (''column_id'', PString)], MoveProjectCard),
      (''update_project_card'', [(''card_id'', PString)], UpdateProjectCard),
      (''remove_card_from_project'', [(''card_id'', PString)], RemoveCardFromProject),
      (''bulk_move_cards'', [(''card_ids'', PArray), (''target_column_id'', PString)], BulkMoveCards)]"

text \<open>The simplified card tools, which carry the same names.\<close>

definition simple_card_tools :: "(string \<times> (string \<times> param_type) list \<times> (remote \<Rightarrow> request \<Rightarrow> handler_return)) list" where
  "simple_card_tools =
     [(''add_card_to_project'', [(''board_id'', PString), (''content_id'', PString)], AddCardToProjectSimple),
      (''move_project_card'', [(''card_id'', PString), (''column_id'', PString)], MoveProjectCardSimple),
      (''update_project_card'', [(''card_id'', PString)], UpdateProjectCardSimple),
      (''remove_card_from_project'', [(''card_id'', PString)], RemoveCardFromProjectSimple),
      (''bulk_move_cards'', [(''card_ids'', PArray), (''target_column_id'', PString)], BulkMoveCardsSimple)]"

section \<open>Facts about the string functions\<close>

lemma HasPrefix_iff: "HasPrefix s p \<longleftrightarrow> (\<exists>r. s = p @ r)"
  by (induction s p rule: HasPrefix.induct) auto

lemma Contains_iff: "Contains s substr \<longleftrightarrow> (\<exists>a b. s = a @ substr @ b)"
proof (induction s)
  case Nil
  then show ?case by auto
next
  case (Cons c cs)
  show ?case
  proof
    assume "Contains (c # cs) substr"
    then consider "HasPrefix (c # cs) substr" | "Contains cs substr" by auto
    then show "\<exists>a b. c # cs = a @ substr @ b"
    proof cases
      case 1
      then obtain r where "c # cs = substr @ r" using HasPrefix_iff by blast
      then have "c # cs = [] @ substr @ r" by simp
      then show ?thesis by blast
    next
      case 2
      then obtain a b where "cs = a @ substr @ b" using Cons.IH by blast
      then have "c # cs = (c # a) @ substr @ b" by simp
      then show ?thesis by blast
    qed
  next
    assume "\<exists>a b. c # cs = a @ substr @ b"
    then obtain a b where ab: "c # cs = a @ substr @ b" by blast
    show "Contains (c # cs) substr"
    proof (cases a)
      case Nil
      then have "HasPrefix (c # cs) substr" using ab HasPrefix_iff by auto
      then show ?thesis by simp
    next
      case (Cons a' as)
      then have "cs = as @ substr @ b" using ab by simp
      then have "Contains cs substr" using Cons.IH by blast
      then show ?thesis by simp
    qed
  qed
qed

lemma Contains_append_right: "Contains t substr \<Longrightarrow> Contains (s @ t) substr"
proof -
  assume "Contains t substr"
  then obtain a b where "t = a @ substr @ b" using Contains_iff by blast
  then have "s @ t = (s @ a) @ substr @ b" by simp
  then show ?thesis using Contains_iff by blast
qed

lemma Contains_append_left: "Contains s substr \<Longrightarrow> Contains (s @ t) substr"
proof -
  assume "Contains s substr"
  then obtain a b where "s = a @ substr @ b" using Contains_iff by blast
  then have "s @ t = a @ substr @ (b @ t)" by simp
  then show ?thesis using Contains_iff by blast
qed

lemma Contains_shorter: "Contains s (p @ q) \<Longrightarrow> Contains s p"
proof -
  assume "Contains s (p @ q)"
  then obtain a b where "s = a @ (p @ q) @ b" using Contains_iff by blast
  then have "s = a @ p @ (q @ b)" by simp
  then show ?thesis using Contains_iff by blast
qed

lemma itoa_small:
  "itoa 0 = ''0''" "itoa (Suc 0) = ''1''" "itoa (Suc (Suc 0)) = ''2''" "itoa (Suc (Suc (Suc 0))) = ''3''"
proof -
  have "itoa 0 = ''0''" "itoa 1 = ''1''" "itoa 2 = ''2''" "itoa 3 = ''3''"
    by code_simp+
  then show "itoa 0 = ''0''" "itoa (Suc 0) = ''1''" "itoa (Suc (Suc 0)) = ''2''"
    "itoa (Suc (Suc (Suc 0))) = ''3''"
    by (simp_all add: numeral_2_eq_2 numeral_3_eq_3)
qed

section \<open>The identifier validators\<close>

text \<open>
  C8. \<open>ValidateProjectID\<close> returns no error exactly for the identifiers that start with
  \<open>PVT_\<close>, and the error it returns otherwise has a text that contains \<open>PVT_\<close>;
  \<open>ValidateColumnID\<close> returns no error exactly for the identifiers that start with
  \<open>PVTFSC_\<close> or \<open>PVTSSF_\<close>; \<open>ValidateItemID\<close> exactly for those that start with
  \<open>PVTI_\<close>. Whatever follows the prefix is not looked at.
\<close>

theorem validators_check_prefix_only:
  "(ValidateProjectID ident = None \<longleftrightarrow> (\<exists>rest. ident = ''PVT_'' @ rest))
   \<and> (\<forall>m. ValidateProjectID ident = Some m \<longrightarrow> Contains m ''PVT_'')
   \<and> (ValidateColumnID ident = None \<longleftrightarrow>
        (\<exists>rest. ident = ''PVTFSC_'' @ rest) \<or> (\<exists>rest. ident = ''PVTSSF_'' @ rest))
   \<and> (ValidateItemID ident = None \<longleftrightarrow> (\<exists>rest. ident = ''PVTI_'' @ rest))
   \<and> ValidateProjectID (''PVT_'' @ rest') = None
   \<and> ValidateColumnID (''PVTFSC_'' @ rest') = None
   \<and> ValidateColumnID (''PVTSSF_'' @ rest') = None
   \<and> ValidateItemID (''PVTI_'' @ rest') = None"
proof -
  have lit: "Contains ''. Project IDs should start with 'PVT_' (e.g., 'PVT_kwDOAM6J184ACzDx'' ''PVT_''"
    by code_simp
  have msg: "Contains (a @ ident @ b @ ''. Project IDs should start with 'PVT_' (e.g., 'PVT_kwDOAM6J184ACzDx'' @ c) ''PVT_''" for a b c
  proof -
    have "Contains (''. Project IDs should start with 'PVT_' (e.g., 'PVT_kwDOAM6J184ACzDx'' @ c) ''PVT_''"
      using lit by (rule Contains_append_left)
    then have "Contains (b @ ''. Project IDs should start with 'PVT_' (e.g., 'PVT_kwDOAM6J184ACzDx'' @ c) ''PVT_''"
      by (rule Contains_append_right)
    then have "Contains (ident @ b @ ''. Project IDs should start with 'PVT_' (e.g., 'PVT_kwDOAM6J184ACzDx'' @ c) ''PVT_''"
      by (rule Contains_append_right)
    then show ?thesis by (rule Contains_append_right)
  qed
  have named: "\<forall>m. ValidateProjectID ident = Some m \<longrightarrow> Contains m ''PVT_''"
  proof (intro allI impI)
    fix m
    assume "ValidateProjectID ident = Some m"
    then have "m = ''invalid project ID format: '' @ ident' @ apostrophe
        @ ''. Project IDs should start with 'PVT_' (e.g., 'PVT_kwDOAM6J184ACzDx'' @ apostrophe @ '')''"
      if "ident' = apostrophe @ ident" for ident'
      using that by (simp add: ValidateProjectID_def split: if_splits)
    then have "m = (''invalid project ID format: '' @ apostrophe) @ ident @ apostrophe
        @ ''. Project IDs should start with 'PVT_' (e.g., 'PVT_kwDOAM6J184ACzDx'' @ (apostrophe @ '')'')"
      by simp
    then show "Contains m ''PVT_''"
      using msg by blast
  qed
  have r1: "ValidateProjectID ident = None \<longleftrightarrow> (\<exists>rest. ident = ''PVT_'' @ rest)"
    by (simp add: ValidateProjectID_def HasPrefix_iff)
  have r2: "ValidateColumnID ident = None \<longleftrightarrow>
        (\<exists>rest. ident = ''PVTFSC_'' @ rest) \<or> (\<exists>rest. ident = ''PVTSSF_'' @ rest)"
    by (simp add: ValidateColumnID_def HasPrefix_iff)
  have r3: "ValidateItemID ident = None \<longleftrightarrow> (\<exists>rest. ident = ''PVTI_'' @ rest)"
    by (simp add: ValidateItemID_def HasPrefix_iff)
  have r4: "ValidateProjectID (''PVT_'' @ rest') = None"
    by (simp add: ValidateProjectID_def)
  have r5: "ValidateColumnID (''PVTFSC_'' @ rest') = None"
    by (simp add: ValidateColumnID_def)
  have r6: "ValidateColumnID (''PVTSSF_'' @ rest') = None"
    by (simp add: ValidateColumnID_def)
  have r7: "ValidateItemID (''PVTI_'' @ rest') = None"
    by (simp add: ValidateItemID_def)
  show ?thesis
    by (intro conjI) (rule r1, rule named, rule r2, rule r3, rule r4, rule r5, rule r6, rule r7)
qed

theorem validators_check_prefix_only_witness:
  "ValidateProjectID ''PVT_abc'' = None
   \<and> (\<exists>m. ValidateProjectID ''XYZ_abc'' = Some m \<and> Contains m ''PVT_'')
   \<and> ValidateColumnID ''PVTFSC_1'' = None \<and> ValidateColumnID ''PVTSSF_1'' = None
   \<and> ValidateColumnID ''PVT_1'' \<noteq> None
   \<and> ValidateItemID ''PVTI_9'' = None \<and> ValidateItemID ''PVT_9'' \<noteq> None"
proof -
  have a: "ValidateProjectID ''XYZ_abc'' \<noteq> None" by (simp add: ValidateProjectID_def)
  have b: "ValidateColumnID ''PVT_1'' \<noteq> None" by (simp add: ValidateColumnID_def)
  have c: "ValidateItemID ''PVT_9'' \<noteq> None" by (simp add: ValidateItemID_def)
  show ?thesis
    using validators_check_prefix_only [of "''XYZ_abc''" "''abc''"]
      validators_check_prefix_only [of "''PVT_1''" "''1''"]
      validators_check_prefix_only [of "''PVT_9''" "''9''"] a b c
    by auto
qed

section \<open>The organization-membership hint\<close>

lemma formatSingleError_member:
  "Contains (with_path e) ''must be a member of the'' \<Longrightarrow>
   \<not> Contains (with_path e) ''Could not resolve to a node with the global id'' \<Longrightarrow>
   formatSingleError e = with_path e @ member_hint"
  by (simp add: formatSingleError_def Let_def)

text \<open>
  C9, as the code has it. When the error text is not a JSON document that decodes to a
  non-empty error list, contains \<open>must be a member of the\<close> and does not contain
  \<open>Could not resolve to a node with the global id\<close> (the pattern \<open>formatSingleError\<close>
  tests first), \<open>FormatGraphQLError\<close> returns the text followed by the
  organization-membership hint, once.
\<close>

theorem FormatGraphQLError_member_hint:
  assumes "Contains msg ''must be a member of the''"
    and "\<not> Contains msg ''Could not resolve to a node with the global id''"
    and "unmarshal msg = None \<or> unmarshal msg = Some []"
  shows "FormatGraphQLError unmarshal (Some msg)
          = Some (msg @ CHR 0x0A # ''You need to be a member of the organization to perform this action.'')"
proof -
  have "Contains msg (''must be a member'' @ '' of the'')" using assms(1) by simp
  then have m: "Contains msg ''must be a member''" by (rule Contains_shorter)
  have "ParseGraphQLError unmarshal (Some msg) = Some [\<lparr>Message = msg, Path = []\<rparr>]"
    using assms(3) m by (auto simp: ParseGraphQLError_def)
  then show ?thesis
    using assms(1,2)
    by (simp add: FormatGraphQLError_def formatSingleError_def with_path_def member_hint_def
          newline_def)
qed

theorem FormatGraphQLError_member_hint_witness:
  "Contains ''You must be a member of the acme organization'' ''must be a member of the''
   \<and> FormatGraphQLError not_json (Some ''You must be a member of the acme organization'')
     = Some (''You must be a member of the acme organization''
             @ CHR 0x0A # ''You need to be a member of the organization to perform this action.'')"
proof -
  have a: "Contains ''You must be a member of the acme organization'' ''must be a member of the''"
    by code_simp
  have b: "\<not> Contains ''You must be a member of the acme organization'' ''Could not resolve to a node with the global id''"
    by code_simp
  have c: "not_json ''You must be a member of the acme organization'' = None
           \<or> not_json ''You must be a member of the acme organization'' = Some []"
    by (simp add: not_json_def)
  show ?thesis
    using FormatGraphQLError_member_hint [of "''You must be a member of the acme organization''" not_json] a b c
    by simp
qed

text \<open>
  C9 as stated fails on a text that also matches the first pattern of the chain: the
  hint for unresolvable nodes is appended, and the membership hint is not.
\<close>

theorem FormatGraphQLError_member_hint_counterexample:
  "Contains both_patterns ''must be a member of the''
   \<and> FormatGraphQLError not_json (Some both_patterns)
     = Some (both_patterns
             @ CHR 0x0A # ''This usually means the item was deleted or you don't have permission to access it.'')
   \<and> FormatGraphQLError not_json (Some both_patterns)
     \<noteq> Some (both_patterns
              @ CHR 0x0A # ''You need to be a member of the organization to perform this action.'')"
proof -
  have a: "Contains both_patterns ''must be a member of the''"
    unfolding both_patterns_def by code_simp
  have b: "Contains both_patterns ''Could not resolve to a node with the global id''"
    unfolding both_patterns_def by code_simp
  have c: "Contains both_patterns ''Could not resolve to''"
    unfolding both_patterns_def by code_simp
  have p: "ParseGraphQLError not_json (Some both_patterns) = Some [\<lparr>Message = both_patterns, Path = []\<rparr>]"
    using c by (simp add: ParseGraphQLError_def not_json_def)
  have r: "FormatGraphQLError not_json (Some both_patterns) = Some (both_patterns @ resolve_hint)"
    using p b by (simp add: FormatGraphQLError_def formatSingleError_def with_path_def)
  have "resolve_hint \<noteq> member_hint"
    by (simp add: resolve_hint_def member_hint_def)
  then show ?thesis using a r by (simp add: resolve_hint_def member_hint_def newline_def)
qed

section \<open>Facts about parameter extraction\<close>

lemma RequiredParam_string_Inr: "RequiredParam_string r p = Inr s \<longleftrightarrow> r p = Some (JStr s)"
  by (auto simp: RequiredParam_string_def split: option.splits jvalue.splits)

lemma RequiredParam_bool_Inr: "RequiredParam_bool r p = Inr b \<longleftrightarrow> r p = Some (JBool b)"
  by (auto simp: RequiredParam_bool_def split: option.splits jvalue.splits)

section \<open>Deleting a board needs a confirmation\<close>

text \<open>
  C2. Whenever the \<open>confirm\<close> argument of \<open>delete_project_board\<close> is not the boolean \<open>true\<close>
  (it is false, absent, or not a boolean), the handler returns a tool-level error and has no
  effect at all: the client is not requested and no mutation is issued. Conversely a
  \<open>deleteProjectV2\<close> mutation among the effects implies that \<open>confirm\<close> was present and true.
\<close>

theorem delete_requires_confirmation:
  "(request ''confirm'' \<noteq> Some (JBool True) \<longrightarrow>
      (\<exists>msg. fst (DeleteProjectBoard env request) = Inr (NewToolResultError msg))
      \<and> snd (DeleteProjectBoard env request) = [])
   \<and> (\<forall>input vars. Mutate deleteProjectV2 input vars \<in> set (snd (DeleteProjectBoard env request))
        \<longrightarrow> request ''confirm'' = Some (JBool True))"
  by (auto simp: DeleteProjectBoard_def RequiredParam_bool_Inr Let_def
           split: sum.splits option.splits)

theorem delete_requires_confirmation_witness:
  "fst (DeleteProjectBoard (stub never) [''board_id'' \<mapsto> JStr ''PVT_1'', ''confirm'' \<mapsto> JBool False])
     = Inr (NewToolResultError ''deletion not confirmed - set confirm to true to delete'')
   \<and> snd (DeleteProjectBoard (stub never) [''board_id'' \<mapsto> JStr ''PVT_1'']) = []
   \<and> Mutate deleteProjectV2 JNull (JObj [(''input'', JObj [(''projectId'', JStr ''PVT_1'')])])
       \<in> set (snd (DeleteProjectBoard (stub never) [''board_id'' \<mapsto> JStr ''PVT_1'', ''confirm'' \<mapsto> JBool True]))"
  using delete_requires_confirmation [of "[''board_id'' \<mapsto> JStr ''PVT_1'', ''confirm'' \<mapsto> JBool False]" "stub never"]
    delete_requires_confirmation [of "[''board_id'' \<mapsto> JStr ''PVT_1'']" "stub never"]
  by (simp add: DeleteProjectBoard_def RequiredParam_string_def RequiredParam_bool_def
        client_Mutate_def stub_def)

section \<open>Creating a board\<close>

lemma client_Mutate_nil: "client_Mutate reply sofar (Mutate m JNull variables) = None"
  by (simp add: client_Mutate_def)

lemma CreateProjectBoard_mutate_panics:
  "CreateProjectBoard_mutate env template public input sofar
     = (Inl Panic, sofar @ [Mutate createProjectV2 JNull (JObj [(''input'', JObj input)])])"
  by (simp add: CreateProjectBoard_mutate_def client_Mutate_nil)

lemma CreateProjectBoard_repository_cases:
  "(\<exists>err query. CreateProjectBoard_repository env owner repository template public input sofar
        = (Inr (NewToolResultError err), sofar @ [Query RepositoryLookup query]))
   \<or> (\<exists>input' calls. CreateProjectBoard_repository env owner repository template public input sofar
        = (Inl Panic, sofar @ calls @ [Mutate createProjectV2 JNull (JObj [(''input'', JObj input')])])
        \<and> (\<forall>m i v. Mutate m i v \<notin> set calls))"
proof (cases "repository = []")
  case True
  then have "CreateProjectBoard_repository env owner repository template public input sofar
        = (Inl Panic, sofar @ [] @ [Mutate createProjectV2 JNull (JObj [(''input'', JObj input)])])"
    by (simp add: CreateProjectBoard_repository_def CreateProjectBoard_mutate_panics)
  then show ?thesis by (intro disjI2 exI [of _ input] exI [of _ "[]"]) simp
next
  case False
  let ?q = "JObj [(''owner'', JStr owner), (''name'', JStr repository)]"
  show ?thesis
  proof (cases "repoQuery_reply env sofar (Query RepositoryLookup ?q)")
    case (Inl err)
    then show ?thesis using False
      by (intro disjI1) (simp add: CreateProjectBoard_repository_def)
  next
    case (Inr repositoryID)
    then have "CreateProjectBoard_repository env owner repository template public input sofar
        = (Inl Panic, sofar @ [Query RepositoryLookup ?q]
             @ [Mutate createProjectV2 JNull
                  (JObj [(''input'', JObj (input @ [(''repositoryId'', JStr repositoryID)]))])])"
      using False
      by (simp add: CreateProjectBoard_repository_def CreateProjectBoard_mutate_panics)
    then show ?thesis
      by (intro disjI2 exI [of _ "input @ [(''repositoryId'', JStr repositoryID)]"]
            exI [of _ "[Query RepositoryLookup ?q]"]) simp
  qed
qed

lemma CreateProjectBoard_never_succeeds:
  "fst (CreateProjectBoard env request) \<noteq> Inr (NewToolResultText res)"
proof (cases "RequiredParam_string request ''name''")
  case (Inl e)
  then show ?thesis by (simp add: CreateProjectBoard_def)
next
  case name: (Inr name)
  show ?thesis
  proof (cases "RequiredParam_string request ''owner''")
    case (Inl e)
    then show ?thesis using name by (simp add: CreateProjectBoard_def)
  next
    case owner: (Inr owner)
    show ?thesis
    proof (cases "getGQLClient env")
      case (Some e)
      then show ?thesis using name owner by (simp add: CreateProjectBoard_def)
    next
      case None
      let ?q = "Query OwnerLookup (JObj [(''login'', JStr owner)])"
      show ?thesis
      proof (cases "ownerQuery_reply env [GetClient] ?q")
        case (Inl e)
        then show ?thesis using name owner None by (simp add: CreateProjectBoard_def)
      next
        case (Inr ids)
        show ?thesis
        proof (cases "user_id ids = [] \<and> organization_id ids = []")
          case True
          then show ?thesis using name owner None Inr by (simp add: CreateProjectBoard_def)
        next
          case False
          obtain input where run: "CreateProjectBoard env request
              = CreateProjectBoard_repository env owner (OptionalParam_string request ''repository'')
                  (OptionalParam_string request ''template'') (OptionalParam_bool request ''public'')
                  input [GetClient, ?q]"
            using name owner None Inr False by (simp add: CreateProjectBoard_def Let_def)
          show ?thesis
            using CreateProjectBoard_repository_cases
              [of env owner "OptionalParam_string request ''repository''"
                  "OptionalParam_string request ''template''" "OptionalParam_bool request ''public''"
                  input "[GetClient, ?q]"]
            unfolding run by auto
        qed
      qed
    qed
  qed
qed

lemma CreateProjectBoard_no_visibility_update:
  "Mutate updateProjectV2 i v \<notin> set (snd (CreateProjectBoard env request))"
proof (cases "RequiredParam_string request ''name''")
  case (Inl e)
  then show ?thesis by (simp add: CreateProjectBoard_def)
next
  case name: (Inr name)
  show ?thesis
  proof (cases "RequiredParam_string request ''owner''")
    case (Inl e)
    then show ?thesis using name by (simp add: CreateProjectBoard_def)
  next
    case owner: (Inr owner)
    show ?thesis
    proof (cases "getGQLClient env")
      case (Some e)
      then show ?thesis using name owner by (simp add: CreateProjectBoard_def)
    next
      case None
      let ?q = "Query OwnerLookup (JObj [(''login'', JStr owner)])"
      show ?thesis
      proof (cases "ownerQuery_reply env [GetClient] ?q")
        case (Inl e)
        then show ?thesis using name owner None by (simp add: CreateProjectBoard_def)
      next
        case (Inr ids)
        show ?thesis
        proof (cases "user_id ids = [] \<and> organization_id ids = []")
          case True
          then show ?thesis using name owner None Inr by (simp add: CreateProjectBoard_def)
        next
          case False
          obtain input where run: "CreateProjectBoard env request
              = CreateProjectBoard_repository env owner (OptionalParam_string request ''repository'')
                  (OptionalParam_string request ''template'') (OptionalParam_bool request ''public'')
                  input [GetClient, ?q]"
            using name owner None Inr False by (simp add: CreateProjectBoard_def Let_def)
          show ?thesis
            using CreateProjectBoard_repository_cases
              [of env owner "OptionalParam_string request ''repository''"
                  "OptionalParam_string request ''template''" "OptionalParam_bool request ''public''"
                  input "[GetClient, ?q]"]
            unfolding run by auto
        qed
      qed
    qed
  qed
qed

lemma CreateProjectBoard_reaches_the_mutation:
  assumes "RequiredParam_string request ''name'' = Inr name"
    and "RequiredParam_string request ''owner'' = Inr owner"
    and "getGQLClient env = None"
    and "ownerQuery_reply env [GetClient] (Query OwnerLookup (JObj [(''login'', JStr owner)])) = Inr ids"
    and "user_id ids \<noteq> [] \<or> organization_id ids \<noteq> []"
    and "request ''repository'' = None"
  shows "CreateProjectBoard env request
     = (Inl Panic,
        [GetClient, Query OwnerLookup (JObj [(''login'', JStr owner)]),
         Mutate createProjectV2 JNull
           (JObj [(''input'',
              JObj ([(''ownerId'', JStr (if user_id ids \<noteq> [] then user_id ids else organization_id ids)),
                     (''title'', JStr name)]
                    @ (case request ''description'' of
                         Some (JStr d) \<Rightarrow> (if d \<noteq> [] then [(''description'', JStr d)] else [])
                       | _ \<Rightarrow> [])))])])"
proof -
  have d: "(if OptionalParam_string request ''description'' \<noteq> []
            then [(''description'', JStr (OptionalParam_string request ''description''))] else [])
         = (case request ''description'' of
              Some (JStr d) \<Rightarrow> (if d \<noteq> [] then [(''description'', JStr d)] else [])
            | _ \<Rightarrow> [])"
    by (simp add: OptionalParam_string_def split: option.splits jvalue.splits)
  have r: "OptionalParam_string request ''repository'' = []"
    using assms(6) by (simp add: OptionalParam_string_def)
  show ?thesis
    using assms(1-5) r
    by (auto simp: CreateProjectBoard_def Let_def CreateProjectBoard_repository_def
          CreateProjectBoard_mutate_panics d [symmetric] simp del: append.simps)
qed

text \<open>
  C3 fails on the code. \<open>CreateProjectBoard\<close> calls \<open>client.Mutate\<close> with a \<open>nil\<close> input for
  the creation: the call panics, so the handler never returns a success result, whatever
  the request and the remote side, and it never comes to the visibility update. On a
  request with a name, an owner that is found and no repository, the handler acquires the
  client, looks the owner up, calls the creation mutation and panics there.
\<close>

theorem CreateProjectBoard_panics_at_the_creation:
  "(\<forall>res. fst (CreateProjectBoard env request) \<noteq> Inr (NewToolResultText res))
   \<and> (\<forall>input variables.
         Mutate updateProjectV2 input variables \<notin> set (snd (CreateProjectBoard env request)))
   \<and> (RequiredParam_string request ''name'' = Inr name
        \<longrightarrow> RequiredParam_string request ''owner'' = Inr owner
        \<longrightarrow> getGQLClient env = None
        \<longrightarrow> ownerQuery_reply env [GetClient] (Query OwnerLookup (JObj [(''login'', JStr owner)])) = Inr ids
        \<longrightarrow> user_id ids \<noteq> [] \<or> organization_id ids \<noteq> []
        \<longrightarrow> request ''repository'' = None
        \<longrightarrow> CreateProjectBoard env request
            = (Inl Panic,
               [GetClient, Query OwnerLookup (JObj [(''login'', JStr owner)]),
                Mutate createProjectV2 JNull
                  (JObj [(''input'',
                     JObj ([(''ownerId'', JStr (if user_id ids \<noteq> [] then user_id ids
                                                 else organization_id ids)),
                            (''title'', JStr name)]
                           @ (case request ''description'' of
                                Some (JStr d) \<Rightarrow> (if d \<noteq> [] then [(''description'', JStr d)] else [])
                              | _ \<Rightarrow> [])))])]))"
  using CreateProjectBoard_never_succeeds [of env request]
    CreateProjectBoard_no_visibility_update [of _ _ env request]
    CreateProjectBoard_reaches_the_mutation [of request name owner env ids]
  by (intro conjI allI impI) blast+

text \<open>
  A request for a public board, the owner being found and the remote side answering every
  call: the handler panics at the creation mutation.
\<close>

theorem CreateProjectBoard_panics_at_the_creation_witness:
  "CreateProjectBoard (stub never) public_request
     = (Inl Panic,
        [GetClient, Query OwnerLookup (JObj [(''login'', JStr ''octocat'')]),
         Mutate createProjectV2 JNull
           (JObj [(''input'', JObj [(''ownerId'', JStr ''U_1''), (''title'', JStr ''Roadmap'')])])])"
proof -
  have n: "RequiredParam_string public_request ''name'' = Inr ''Roadmap''"
    and o: "RequiredParam_string public_request ''owner'' = Inr ''octocat''"
    by (simp_all add: public_request_def RequiredParam_string_def)
  have c: "getGQLClient (stub never) = None"
    by (simp add: stub_def)
  have q: "ownerQuery_reply (stub never) [GetClient] (Query OwnerLookup (JObj [(''login'', JStr ''octocat'')]))
           = Inr \<lparr>user_id = ''U_1'', organization_id = []\<rparr>"
    by (simp add: stub_def answer_def never_def)
  have i: "user_id \<lparr>user_id = ''U_1'', organization_id = []\<rparr> \<noteq> []
           \<or> organization_id \<lparr>user_id = ''U_1'', organization_id = []\<rparr> \<noteq> []"
    by simp
  have r: "public_request ''repository'' = None" and d: "public_request ''description'' = None"
    by (simp_all add: public_request_def)
  show ?thesis
    using CreateProjectBoard_panics_at_the_creation
      [of "stub never" public_request "''Roadmap''" "''octocat''" "\<lparr>user_id = ''U_1'', organization_id = []\<rparr>",
       THEN conjunct2, THEN conjunct2, rule_format, OF n o c q i r]
    by (simp add: d)
qed

section \<open>Listing boards by owner type\<close>

lemma project_entry_tag: "object_get (project_entry t n) ''owner_type'' = Some (JStr t)"
  by (simp add: project_entry_def object_get_def)

lemma RequiredParam_string_other:
  "p \<noteq> q \<Longrightarrow> RequiredParam_string (r(q := t)) p = RequiredParam_string r p"
  by (simp add: RequiredParam_string_def)

lemma OptionalParam_bool_other:
  "p \<noteq> q \<Longrightarrow> OptionalParam_bool (r(q := t)) p = OptionalParam_bool r p"
  by (simp add: OptionalParam_bool_def)

lemma OptionalInt_other:
  "p \<noteq> q \<Longrightarrow> OptionalIntParamWithDefault (r(q := t)) p d = OptionalIntParamWithDefault r p d"
  by (simp add: OptionalIntParamWithDefault_def)

lemma list_effects_type_free:
  "snd (ListProjectBoards env (request(''type'' := t))) = snd (ListProjectBoards env request)"
  by (simp add: ListProjectBoards_def Let_def RequiredParam_string_other OptionalParam_bool_other
        OptionalInt_other split: sum.splits option.splits)

lemma list_effects:
  assumes "RequiredParam_string request ''owner'' = Inr owner"
    and "getGQLClient env = None"
  shows "snd (ListProjectBoards env request)
     = [GetClient,
        Query ProjectsList
          (JObj [(''login'', JStr owner),
                 (''limit'', JNum (int32_of_int
                    (if OptionalIntParamWithDefault request ''limit'' 20 > 100 then 100
                     else OptionalIntParamWithDefault request ''limit'' 20))),
                 (''includeClosed'', JBool (OptionalParam_bool request ''include_closed''))])]"
  using assms
  by (simp add: ListProjectBoards_def Let_def projects_query_def split: sum.splits split del: if_split)

lemma list_result:
  assumes "RequiredParam_string request ''owner'' = Inr owner"
    and "getGQLClient env = None"
    and "projectsQuery_reply env [GetClient]
           (Query ProjectsList
              (JObj [(''login'', JStr owner),
                     (''limit'', JNum (int32_of_int
                        (if OptionalIntParamWithDefault request ''limit'' 20 > 100 then 100
                         else OptionalIntParamWithDefault request ''limit'' 20))),
                     (''includeClosed'', JBool (OptionalParam_bool request ''include_closed''))]))
         = Inr reply"
  shows "fst (ListProjectBoards env request)
     = (let ownerType = (if OptionalParam_string request ''type'' = [] then ''all''
                         else OptionalParam_string request ''type'');
            projects =
              (if ownerType = ''user'' \<or> ownerType = ''all''
               then map (project_entry ''user'') (user_nodes reply) else [])
              @ (if ownerType = ''organization'' \<or> ownerType = ''all''
                 then map (project_entry ''organization'') (organization_nodes reply) else [])
        in Inr (NewToolResultText [(''projects'', slice_json projects),
                                   (''total_count'', JNum (int (length projects)))]))"
  using assms
  by (simp add: ListProjectBoards_def Let_def projects_query_def split del: if_split)

text \<open>
  C7. Once \<open>list_project_boards\<close> has an owner and a client, it makes one query, the
  document that selects the projects of the user and of the organization of that login, and
  the query is the same whatever the \<open>type\<close> argument is. When the query succeeds: with
  \<open>type\<close> \<open>user\<close> the \<open>projects\<close> are the entries of the user's nodes, each tagged \<open>user\<close>
  (none is tagged \<open>organization\<close>), symmetrically for \<open>organization\<close>; with \<open>all\<close> or no
  \<open>type\<close> they are the user's entries, tagged \<open>user\<close>, followed by the organization's,
  tagged \<open>organization\<close>.
\<close>

theorem list_filters_by_owner_type:
  assumes owner: "RequiredParam_string request ''owner'' = Inr owner"
    and client: "getGQLClient env = None"
  shows
    "let query = Query ProjectsList
           (JObj [(''login'', JStr owner),
                  (''limit'', JNum (int32_of_int
                     (if OptionalIntParamWithDefault request ''limit'' 20 > 100 then 100
                      else OptionalIntParamWithDefault request ''limit'' 20))),
                  (''includeClosed'', JBool (OptionalParam_bool request ''include_closed''))])
     in (\<forall>t. snd (ListProjectBoards env (request(''type'' := t))) = [GetClient, query])
      \<and> (\<forall>reply. projectsQuery_reply env [GetClient] query = Inr reply \<longrightarrow>
           (\<exists>projects.
              fst (ListProjectBoards env request)
                = Inr (NewToolResultText [(''projects'', slice_json projects),
                                          (''total_count'', JNum (int (length projects)))])
            \<and> (request ''type'' = Some (JStr ''user'') \<longrightarrow>
                  length projects = length (user_nodes reply)
                  \<and> (\<forall>k < length projects.
                        object_get (projects ! k) ''id'' = Some (JStr (pn_id (user_nodes reply ! k)))
                        \<and> object_get (projects ! k) ''owner_type'' = Some (JStr ''user'')))
            \<and> (request ''type'' = Some (JStr ''organization'') \<longrightarrow>
                  length projects = length (organization_nodes reply)
                  \<and> (\<forall>k < length projects.
                        object_get (projects ! k) ''id''
                          = Some (JStr (pn_id (organization_nodes reply ! k)))
                        \<and> object_get (projects ! k) ''owner_type'' = Some (JStr ''organization'')))
            \<and> (request ''type'' = Some (JStr ''all'') \<or> request ''type'' = None \<longrightarrow>
                  map (\<lambda>e. (object_get e ''id'', object_get e ''owner_type'')) projects
                    = map (\<lambda>n. (Some (JStr (pn_id n)), Some (JStr ''user''))) (user_nodes reply)
                      @ map (\<lambda>n. (Some (JStr (pn_id n)), Some (JStr ''organization'')))
                          (organization_nodes reply))))"
proof -
  define query where "query = Query ProjectsList
           (JObj [(''login'', JStr owner),
                  (''limit'', JNum (int32_of_int
                     (if OptionalIntParamWithDefault request ''limit'' 20 > 100 then 100
                      else OptionalIntParamWithDefault request ''limit'' 20))),
                  (''includeClosed'', JBool (OptionalParam_bool request ''include_closed''))])"
  have eff: "snd (ListProjectBoards env (request(''type'' := t))) = [GetClient, query]" for t
    unfolding list_effects_type_free query_def by (rule list_effects [OF owner client])
  have ident: "object_get (project_entry tag n) ''id'' = Some (JStr (pn_id n))" for tag n
    by (simp add: project_entry_def object_get_def)
  have res: "\<exists>projects.
              fst (ListProjectBoards env request)
                = Inr (NewToolResultText [(''projects'', slice_json projects),
                                          (''total_count'', JNum (int (length projects)))])
            \<and> (request ''type'' = Some (JStr ''user'') \<longrightarrow>
                  length projects = length (user_nodes reply)
                  \<and> (\<forall>k < length projects.
                        object_get (projects ! k) ''id'' = Some (JStr (pn_id (user_nodes reply ! k)))
                        \<and> object_get (projects ! k) ''owner_type'' = Some (JStr ''user'')))
            \<and> (request ''type'' = Some (JStr ''organization'') \<longrightarrow>
                  length projects = length (organization_nodes reply)
                  \<and> (\<forall>k < length projects.
                        object_get (projects ! k) ''id''
                          = Some (JStr (pn_id (organization_nodes reply ! k)))
                        \<and> object_get (projects ! k) ''owner_type'' = Some (JStr ''organization'')))
            \<and> (request ''type'' = Some (JStr ''all'') \<or> request ''type'' = None \<longrightarrow>
                  map (\<lambda>e. (object_get e ''id'', object_get e ''owner_type'')) projects
                    = map (\<lambda>n. (Some (JStr (pn_id n)), Some (JStr ''user''))) (user_nodes reply)
                      @ map (\<lambda>n. (Some (JStr (pn_id n)), Some (JStr ''organization'')))
                          (organization_nodes reply))"
    if rep: "projectsQuery_reply env [GetClient] query = Inr reply" for reply
  proof -
    define listed where "listed =
       (let ownerType = (if OptionalParam_string request ''type'' = [] then ''all''
                         else OptionalParam_string request ''type'') in
        (if ownerType = ''user'' \<or> ownerType = ''all''
         then map (project_entry ''user'') (user_nodes reply) else [])
        @ (if ownerType = ''organization'' \<or> ownerType = ''all''
           then map (project_entry ''organization'') (organization_nodes reply) else []))"
    have r: "fst (ListProjectBoards env request)
               = Inr (NewToolResultText [(''projects'', slice_json listed),
                                         (''total_count'', JNum (int (length listed)))])"
      using list_result [OF owner client rep [unfolded query_def]]
      by (simp add: listed_def Let_def)
    have user: "listed = map (project_entry ''user'') (user_nodes reply)"
      if "request ''type'' = Some (JStr ''user'')"
      using that by (simp add: listed_def OptionalParam_string_def)
    have org: "listed = map (project_entry ''organization'') (organization_nodes reply)"
      if "request ''type'' = Some (JStr ''organization'')"
      using that by (simp add: listed_def OptionalParam_string_def)
    have all: "listed = map (project_entry ''user'') (user_nodes reply)
                        @ map (project_entry ''organization'') (organization_nodes reply)"
      if "request ''type'' = Some (JStr ''all'') \<or> request ''type'' = None"
      using that by (auto simp: listed_def OptionalParam_string_def)
    show ?thesis
    proof (intro exI [of _ listed] conjI impI)
      show "fst (ListProjectBoards env request)
               = Inr (NewToolResultText [(''projects'', slice_json listed),
                                         (''total_count'', JNum (int (length listed)))])"
        by (rule r)
    next
      assume t: "request ''type'' = Some (JStr ''user'')"
      show "length listed = length (user_nodes reply)" by (simp add: user [OF t])
      show "\<forall>k < length listed.
              object_get (listed ! k) ''id'' = Some (JStr (pn_id (user_nodes reply ! k)))
              \<and> object_get (listed ! k) ''owner_type'' = Some (JStr ''user'')"
        by (simp add: user [OF t] ident project_entry_tag)
    next
      assume t: "request ''type'' = Some (JStr ''organization'')"
      show "length listed = length (organization_nodes reply)" by (simp add: org [OF t])
      show "\<forall>k < length listed.
              object_get (listed ! k) ''id'' = Some (JStr (pn_id (organization_nodes reply ! k)))
              \<and> object_get (listed ! k) ''owner_type'' = Some (JStr ''organization'')"
        by (simp add: org [OF t] ident project_entry_tag)
    next
      assume t: "request ''type'' = Some (JStr ''all'') \<or> request ''type'' = None"
      show "map (\<lambda>e. (object_get e ''id'', object_get e ''owner_type'')) listed
              = map (\<lambda>n. (Some (JStr (pn_id n)), Some (JStr ''user''))) (user_nodes reply)
                @ map (\<lambda>n. (Some (JStr (pn_id n)), Some (JStr ''organization'')))
                    (organization_nodes reply)"
        by (simp add: all [OF t] ident project_entry_tag)
    qed
  qed
  show ?thesis
    unfolding Let_def query_def [symmetric] using eff res by blast
qed

text \<open>
  The boards of a user, the remote side holding one project of the user and one of the
  organization: the query is the same with \<open>type\<close> \<open>user\<close>, \<open>organization\<close> and without
  \<open>type\<close>, and the result holds the user's project alone. With a limit of \<open>-3000000000\<close>
  the query asks for the first 1294967296 projects.
\<close>

theorem list_filters_by_owner_type_witness:
  "snd (ListProjectBoards (stub never) user_boards_request)
     = [GetClient,
        Query ProjectsList
          (JObj [(''login'', JStr ''octocat''), (''limit'', JNum 20), (''includeClosed'', JBool False)])]
   \<and> snd (ListProjectBoards (stub never) (user_boards_request(''type'' := Some (JStr ''organization''))))
     = [GetClient,
        Query ProjectsList
          (JObj [(''login'', JStr ''octocat''), (''limit'', JNum 20), (''includeClosed'', JBool False)])]
   \<and> snd (ListProjectBoards (stub never) (user_boards_request(''type'' := None)))
     = [GetClient,
        Query ProjectsList
          (JObj [(''login'', JStr ''octocat''), (''limit'', JNum 20), (''includeClosed'', JBool False)])]
   \<and> fst (ListProjectBoards (stub never) user_boards_request)
     = Inr (NewToolResultText
         [(''projects'',
           JArr [JObj [(''id'', JStr ''PVT_1''), (''number'', JNum 1), (''title'', JStr ''Roadmap''),
                       (''description'', JStr []), (''short_description'', JStr []),
                       (''public'', JBool False), (''closed'', JBool False), (''url'', JStr []),
                       (''created_at'', JStr ''2024-01-01T00:00:00Z''),
                       (''updated_at'', JStr ''2024-01-02T00:00:00Z''),
                       (''items_count'', JNum 3), (''owner_type'', JStr ''user'')]]),
          (''total_count'', JNum 1)])
   \<and> snd (ListProjectBoards (stub never) wrapping_limit_request)
     = [GetClient,
        Query ProjectsList
          (JObj [(''login'', JStr ''octocat''), (''limit'', JNum 1294967296),
                 (''includeClosed'', JBool False)])]"
proof -
  let ?query = "Query ProjectsList
          (JObj [(''login'', JStr ''octocat''), (''limit'', JNum 20), (''includeClosed'', JBool False)])"
  have o: "RequiredParam_string user_boards_request ''owner'' = Inr ''octocat''"
    by (simp add: user_boards_request_def RequiredParam_string_def)
  have c: "getGQLClient (stub never) = None"
    by (simp add: stub_def)
  have l: "int32_of_int (if OptionalIntParamWithDefault user_boards_request ''limit'' 20 > 100 then 100
                         else OptionalIntParamWithDefault user_boards_request ''limit'' 20) = 20"
    by (simp add: user_boards_request_def OptionalIntParamWithDefault_def int32_of_int_def)
  have b: "OptionalParam_bool user_boards_request ''include_closed'' = False"
    by (simp add: user_boards_request_def OptionalParam_bool_def)
  note inst = list_filters_by_owner_type [OF o c, unfolded Let_def l b]
  have e: "snd (ListProjectBoards (stub never) (user_boards_request(''type'' := t))) = [GetClient, ?query]"
    for t
    using inst [THEN conjunct1, rule_format, of t] .
  have same: "user_boards_request(''type'' := Some (JStr ''user'')) = user_boards_request"
    by (auto simp: user_boards_request_def)
  have e0: "snd (ListProjectBoards (stub never) user_boards_request) = [GetClient, ?query]"
    using e [of "Some (JStr ''user'')"] unfolding same .
  have r: "fst (ListProjectBoards (stub never) user_boards_request)
     = Inr (NewToolResultText
         [(''projects'',
           JArr [JObj [(''id'', JStr ''PVT_1''), (''number'', JNum 1), (''title'', JStr ''Roadmap''),
                       (''description'', JStr []), (''short_description'', JStr []),
                       (''public'', JBool False), (''closed'', JBool False), (''url'', JStr []),
                       (''created_at'', JStr ''2024-01-01T00:00:00Z''),
                       (''updated_at'', JStr ''2024-01-02T00:00:00Z''),
                       (''items_count'', JNum 3), (''owner_type'', JStr ''user'')]]),
          (''total_count'', JNum 1)])"
    by (simp add: ListProjectBoards_def user_boards_request_def RequiredParam_string_def
          OptionalParam_string_def OptionalParam_bool_def OptionalIntParamWithDefault_def
          stub_def answer_def never_def Let_def slice_json_def project_entry_def sample_node_def)
  have o': "RequiredParam_string wrapping_limit_request ''owner'' = Inr ''octocat''"
    by (simp add: wrapping_limit_request_def RequiredParam_string_def)
  have l': "int32_of_int (if OptionalIntParamWithDefault wrapping_limit_request ''limit'' 20 > 100 then 100
                          else OptionalIntParamWithDefault wrapping_limit_request ''limit'' 20)
            = 1294967296"
    by (simp add: wrapping_limit_request_def OptionalIntParamWithDefault_def int_of_float64_def
          int32_of_int_def)
  have b': "OptionalParam_bool wrapping_limit_request ''include_closed'' = False"
    by (simp add: wrapping_limit_request_def OptionalParam_bool_def)
  have same': "wrapping_limit_request(''type'' := None) = wrapping_limit_request"
    by (auto simp: wrapping_limit_request_def)
  have w: "snd (ListProjectBoards (stub never) wrapping_limit_request)
     = [GetClient,
        Query ProjectsList
          (JObj [(''login'', JStr ''octocat''), (''limit'', JNum 1294967296),
                 (''includeClosed'', JBool False)])]"
    using list_filters_by_owner_type [OF o' c, unfolded Let_def l' b', THEN conjunct1, rule_format, of None]
    unfolding same' .
  show ?thesis
    using e0 e [of "Some (JStr ''organization'')"] e [of None] r w by (intro conjI)
qed

section \<open>The optional sections of a board\<close>

lemma GetProjectBoard_sections_always_present:
  "fst (GetProjectBoard env request) = Inr (NewToolResultText res) \<Longrightarrow>
   map_of res ''statistics'' \<noteq> None \<and> map_of res ''fields'' \<noteq> None
   \<and> map_of res ''fields_count'' \<noteq> None"
  by (auto simp: GetProjectBoard_def board_result_def Let_def split: sum.splits option.splits)

text \<open>
  C6 fails on the code: \<open>include_stats\<close> and \<open>include_fields\<close> given as \<open>false\<close> are turned
  into \<open>true\<close> by the defaulting code (\<open>if includeStats == false { includeStats = true }\<close>),
  so the statistics and the fields are returned all the same.
\<close>

theorem GetProjectBoard_ignores_false_flags:
  "fst (GetProjectBoard (stub never) flags_off_request)
     = Inr (NewToolResultText
         (board_result sample_board
          @ [(''statistics'', JObj [(''total_items'', JNum 3)]),
             (''fields'', JArr [JObj [(''type'', JStr ''ProjectV2Field''), (''id'', JStr ''PVTF_1''),
                                     (''name'', JStr ''Title'')]]),
             (''fields_count'', JNum 1)]))"
  by (simp add: GetProjectBoard_def flags_off_request_def RequiredParam_string_def
        OptionalParam_bool_def stub_def answer_def never_def Let_def sample_board_def
        fieldData_def slice_json_def)

section \<open>Moving cards in bulk\<close>

lemma move_cards_snd:
  "snd (move_cards env P F C ids results sofar) = sofar @ map (move_mutation P F C) ids"
  by (induction ids arbitrary: results sofar) (simp_all add: Let_def)

lemma move_cards_fst:
  "fst (move_cards env P F C ids results sofar)
   = results @ map (\<lambda>k. move_entry (ids ! k)
                     (bulkMoveItem_reply env (sofar @ map (move_mutation P F C) (take k ids))
                        (move_mutation P F C (ids ! k))))
                [0..<length ids]"
proof (induction ids arbitrary: results sofar)
  case Nil
  then show ?case by simp
next
  case (Cons c rest)
  have "[0..<length (c # rest)] = 0 # map Suc [0..<length rest]"
    by (simp add: upt_conv_Cons map_Suc_upt del: upt_Suc)
  then show ?case
    by (simp add: Let_def Cons.IH comp_def del: upt_Suc)
qed

lemma count_moved_append: "count_moved (xs @ ys) = count_moved xs + count_moved ys"
  by (induction xs) simp_all

lemma count_moved_map:
  "count_moved (map (\<lambda>k. move_entry (c k) (r k)) ks) = length (filter (\<lambda>k. \<exists>u. r k = Inr u) ks)"
  by (induction ks) (auto simp: move_entry_def object_get_def split: sum.splits)

text \<open>
  C4, as the code has it. On a request whose \<open>card_ids\<close> is a non-empty array of \<open>N\<close>
  strings and whose \<open>target_column_id\<close> is given, the handler \<open>BulkMoveCardsSimple\<close> makes
  no call and returns \<open>cards_moved = N\<close>, the column and a message, and nothing else. The
  handler \<open>BulkMoveCards\<close>, once the client is acquired and the column is found, calls one
  \<open>updateProjectV2ItemFieldValue\<close> mutation per card, for that card, in the order of the
  request, and returns a result whose \<open>results\<close> has \<open>N\<close> entries, the \<open>k\<close>-th tagged
  \<open>moved\<close> if the \<open>k\<close>-th mutation succeeded and \<open>failed\<close> with the error message
  otherwise; \<open>moved_count\<close> is the number of mutations that succeeded, \<open>failed_count\<close> is \<open>N\<close>
  minus \<open>moved_count\<close>, and \<open>success\<close> is true exactly when at least one card moved.
\<close>

theorem bulk_move_reports_each_card:
  assumes ids: "OptionalStringArrayParam request ''card_ids'' = Inr cardIDs"
    and nonempty: "cardIDs \<noteq> []"
    and col: "RequiredParam_string request ''target_column_id'' = Inr columnID"
  shows
    "BulkMoveCardsSimple env request
       = (Inr (NewToolResultText
            [(''cards_moved'', JNum (int (length cardIDs))),
             (''target_column_id'', JStr columnID),
             (''message'', JStr (''Initiated bulk move of '' @ itoa (length cardIDs) @ '' cards''))]),
          [])
     \<and> (getGQLClient env = None \<longrightarrow>
        columnQuery_reply env [GetClient] (Query ColumnLookup (JObj [(''columnId'', JStr columnID)]))
          = Inr column \<longrightarrow>
        (let lookup = [GetClient, Query ColumnLookup (JObj [(''columnId'', JStr columnID)])];
             move = (\<lambda>cardID. Mutate updateProjectV2ItemFieldValue
                       (JObj [(''projectId'', JStr (ci_project_id column)),
                              (''itemId'', JStr cardID),
                              (''fieldId'', JStr (ci_field_id column)),
                              (''value'', JObj [(''singleSelectOptionId'', JStr columnID)])])
                       JNull);
             reply = (\<lambda>k. bulkMoveItem_reply env (lookup @ map move (take k cardIDs))
                               (move (cardIDs ! k)))
         in \<exists>results moved.
              snd (BulkMoveCards env request) = lookup @ map move cardIDs
            \<and> fst (BulkMoveCards env request)
                = Inr (NewToolResultText
                    [(''success'', JBool (moved > 0)),
                     (''total_cards'', JNum (int (length cardIDs))),
                     (''moved_count'', JNum (int moved)),
                     (''failed_count'', JNum (int (length cardIDs) - int moved)),
                     (''target_column_id'', JStr columnID),
                     (''results'', JArr results),
                     (''message'', JStr (''Moved '' @ itoa moved @ '' of '' @ itoa (length cardIDs)
                                         @ '' cards successfully''))])
            \<and> length results = length cardIDs
            \<and> (\<forall>k < length cardIDs. \<forall>err. reply k = Inl err \<longrightarrow>
                  results ! k = JObj [(''card_id'', JStr (cardIDs ! k)), (''status'', JStr ''failed''),
                                      (''error'', JStr err)])
            \<and> (\<forall>k < length cardIDs. \<forall>u. reply k = Inr u \<longrightarrow>
                  results ! k = JObj [(''card_id'', JStr (cardIDs ! k)), (''status'', JStr ''moved'')])
            \<and> moved = length (filter (\<lambda>k. \<exists>u. reply k = Inr u) [0..<length cardIDs])
            \<and> moved \<le> length cardIDs))"
proof (intro conjI impI)
  show "BulkMoveCardsSimple env request
       = (Inr (NewToolResultText
            [(''cards_moved'', JNum (int (length cardIDs))),
             (''target_column_id'', JStr columnID),
             (''message'', JStr (''Initiated bulk move of '' @ itoa (length cardIDs) @ '' cards''))]),
          [])"
    using ids nonempty col by (simp add: BulkMoveCardsSimple_def)
next
  assume client: "getGQLClient env = None"
    and cq: "columnQuery_reply env [GetClient] (Query ColumnLookup (JObj [(''columnId'', JStr columnID)]))
             = Inr column"
  let ?P = "ci_project_id column" and ?F = "ci_field_id column"
  let ?pre = "[GetClient, Query ColumnLookup (JObj [(''columnId'', JStr columnID)])]"
  define move where "move = (\<lambda>cardID. Mutate updateProjectV2ItemFieldValue
                       (JObj [(''projectId'', JStr (ci_project_id column)),
                              (''itemId'', JStr cardID),
                              (''fieldId'', JStr (ci_field_id column)),
                              (''value'', JObj [(''singleSelectOptionId'', JStr columnID)])])
                       JNull)"
  define reply where "reply = (\<lambda>k. bulkMoveItem_reply env (?pre @ map move (take k cardIDs))
                               (move (cardIDs ! k)))"
  have mv: "move_mutation ?P ?F columnID = move"
    by (rule ext) (simp add: move_def move_mutation_def item_field_input_def)
  define results where "results = map (\<lambda>k. move_entry (cardIDs ! k) (reply k)) [0..<length cardIDs]"
  define moved where "moved = length (filter (\<lambda>k. \<exists>u. reply k = Inr u) [0..<length cardIDs])"
  have f: "fst (move_cards env ?P ?F columnID cardIDs [] ?pre) = results"
    unfolding results_def reply_def using move_cards_fst [of env ?P ?F columnID cardIDs "[]" ?pre]
    by (simp add: mv)
  have s: "snd (move_cards env ?P ?F columnID cardIDs [] ?pre) = ?pre @ map move cardIDs"
    unfolding mv [symmetric] by (rule move_cards_snd)
  have mc: "move_cards env ?P ?F columnID cardIDs [] ?pre = (results, ?pre @ map move cardIDs)"
    using f s by (metis prod.collapse)
  have cm: "count_moved results = moved"
    unfolding results_def moved_def by (rule count_moved_map)
  have ne: "results \<noteq> []"
    using nonempty by (simp add: results_def)
  have le: "moved \<le> length cardIDs"
    unfolding moved_def using length_filter_le [of _ "[0..<length cardIDs]"] by simp
  have eff: "snd (BulkMoveCards env request) = ?pre @ map move cardIDs"
    using client ids nonempty col cq mc by (simp add: BulkMoveCards_def Let_def)
  have res: "fst (BulkMoveCards env request)
        = Inr (NewToolResultText
            [(''success'', JBool (moved > 0)),
             (''total_cards'', JNum (int (length cardIDs))),
             (''moved_count'', JNum (int moved)),
             (''failed_count'', JNum (int (length cardIDs) - int moved)),
             (''target_column_id'', JStr columnID),
             (''results'', JArr results),
             (''message'', JStr (''Moved '' @ itoa moved @ '' of '' @ itoa (length cardIDs)
                                 @ '' cards successfully''))])"
    using client ids nonempty col cq mc cm ne by (simp add: BulkMoveCards_def Let_def slice_json_def)
  have len: "length results = length cardIDs"
    by (simp add: results_def)
  have failed: "\<forall>k < length cardIDs. \<forall>err. reply k = Inl err \<longrightarrow>
          results ! k = JObj [(''card_id'', JStr (cardIDs ! k)), (''status'', JStr ''failed''),
                              (''error'', JStr err)]"
    by (simp add: results_def move_entry_def)
  have ok: "\<forall>k < length cardIDs. \<forall>u. reply k = Inr u \<longrightarrow>
          results ! k = JObj [(''card_id'', JStr (cardIDs ! k)), (''status'', JStr ''moved'')]"
    by (simp add: results_def move_entry_def)
  have "\<exists>results moved.
              snd (BulkMoveCards env request) = ?pre @ map move cardIDs
            \<and> fst (BulkMoveCards env request)
                = Inr (NewToolResultText
                    [(''success'', JBool (moved > 0)),
                     (''total_cards'', JNum (int (length cardIDs))),
                     (''moved_count'', JNum (int moved)),
                     (''failed_count'', JNum (int (length cardIDs) - int moved)),
                     (''target_column_id'', JStr columnID),
                     (''results'', JArr results),
                     (''message'', JStr (''Moved '' @ itoa moved @ '' of '' @ itoa (length cardIDs)
                                         @ '' cards successfully''))])
            \<and> length results = length cardIDs
            \<and> (\<forall>k < length cardIDs. \<forall>err. reply k = Inl err \<longrightarrow>
                  results ! k = JObj [(''card_id'', JStr (cardIDs ! k)), (''status'', JStr ''failed''),
                                      (''error'', JStr err)])
            \<and> (\<forall>k < length cardIDs. \<forall>u. reply k = Inr u \<longrightarrow>
                  results ! k = JObj [(''card_id'', JStr (cardIDs ! k)), (''status'', JStr ''moved'')])
            \<and> moved = length (filter (\<lambda>k. \<exists>u. reply k = Inr u) [0..<length cardIDs])
            \<and> moved \<le> length cardIDs"
    using eff res len failed ok le moved_def by blast
  then show "let lookup = [GetClient, Query ColumnLookup (JObj [(''columnId'', JStr columnID)])];
             move = (\<lambda>cardID. Mutate updateProjectV2ItemFieldValue
                       (JObj [(''projectId'', JStr (ci_project_id column)),
                              (''itemId'', JStr cardID),
                              (''fieldId'', JStr (ci_field_id column)),
                              (''value'', JObj [(''singleSelectOptionId'', JStr columnID)])])
                       JNull);
             reply = (\<lambda>k. bulkMoveItem_reply env (lookup @ map move (take k cardIDs))
                               (move (cardIDs ! k)))
         in \<exists>results moved.
              snd (BulkMoveCards env request) = lookup @ map move cardIDs
            \<and> fst (BulkMoveCards env request)
                = Inr (NewToolResultText
                    [(''success'', JBool (moved > 0)),
                     (''total_cards'', JNum (int (length cardIDs))),
                     (''moved_count'', JNum (int moved)),
                     (''failed_count'', JNum (int (length cardIDs) - int moved)),
                     (''target_column_id'', JStr columnID),
                     (''results'', JArr results),
                     (''message'', JStr (''Moved '' @ itoa moved @ '' of '' @ itoa (length cardIDs)
                                         @ '' cards successfully''))])
            \<and> length results = length cardIDs
            \<and> (\<forall>k < length cardIDs. \<forall>err. reply k = Inl err \<longrightarrow>
                  results ! k = JObj [(''card_id'', JStr (cardIDs ! k)), (''status'', JStr ''failed''),
                                      (''error'', JStr err)])
            \<and> (\<forall>k < length cardIDs. \<forall>u. reply k = Inr u \<longrightarrow>
                  results ! k = JObj [(''card_id'', JStr (cardIDs ! k)), (''status'', JStr ''moved'')])
            \<and> moved = length (filter (\<lambda>k. \<exists>u. reply k = Inr u) [0..<length cardIDs])
            \<and> moved \<le> length cardIDs"
    unfolding Let_def move_def reply_def .
qed

lemma bulk_request_ids:
  "OptionalStringArrayParam bulk_request ''card_ids'' = Inr [''PVTI_1'', ''PVTI_2'', ''PVTI_3'']"
  by (simp add: bulk_request_def OptionalStringArrayParam_def)

text \<open>
  Three cards, the second mutation failing: three mutations, one for each card, two cards
  moved, one failed, three entries.
\<close>

theorem bulk_move_reports_each_card_witness:
  "BulkMoveCards (stub (after 3)) bulk_request
     = (Inr (NewToolResultText
         [(''success'', JBool True),
          (''total_cards'', JNum 3),
          (''moved_count'', JNum 2),
          (''failed_count'', JNum 1),
          (''target_column_id'', JStr ''a1''),
          (''results'', JArr [JObj [(''card_id'', JStr ''PVTI_1''), (''status'', JStr ''moved'')],
                             JObj [(''card_id'', JStr ''PVTI_2''), (''status'', JStr ''failed''),
                                   (''error'', JStr ''remote error'')],
                             JObj [(''card_id'', JStr ''PVTI_3''), (''status'', JStr ''moved'')]]),
          (''message'', JStr ''Moved 2 of 3 cards successfully'')]),
        [GetClient, Query ColumnLookup (JObj [(''columnId'', JStr ''a1'')]),
         Mutate updateProjectV2ItemFieldValue
           (JObj [(''projectId'', JStr ''PVT_1''), (''itemId'', JStr ''PVTI_1''),
                  (''fieldId'', JStr ''PVTSSF_1''),
                  (''value'', JObj [(''singleSelectOptionId'', JStr ''a1'')])]) JNull,
         Mutate updateProjectV2ItemFieldValue
           (JObj [(''projectId'', JStr ''PVT_1''), (''itemId'', JStr ''PVTI_2''),
                  (''fieldId'', JStr ''PVTSSF_1''),
                  (''value'', JObj [(''singleSelectOptionId'', JStr ''a1'')])]) JNull,
         Mutate updateProjectV2ItemFieldValue
           (JObj [(''projectId'', JStr ''PVT_1''), (''itemId'', JStr ''PVTI_3''),
                  (''fieldId'', JStr ''PVTSSF_1''),
                  (''value'', JObj [(''singleSelectOptionId'', JStr ''a1'')])]) JNull])
   \<and> BulkMoveCardsSimple (stub (after 3)) bulk_request
     = (Inr (NewToolResultText
          [(''cards_moved'', JNum 3),
           (''target_column_id'', JStr ''a1''),
           (''message'', JStr ''Initiated bulk move of 3 cards'')]),
        [])"
proof -
  let ?column = "\<lparr>ci_field_id = ''PVTSSF_1'', ci_project_id = ''PVT_1''\<rparr>"
  have client: "getGQLClient (stub (after 3)) = None"
    by (simp add: stub_def)
  have ne: "[''PVTI_1'', ''PVTI_2'', ''PVTI_3''] \<noteq> []"
    by simp
  have col: "RequiredParam_string bulk_request ''target_column_id'' = Inr ''a1''"
    by (simp add: bulk_request_def RequiredParam_string_def)
  have cq: "columnQuery_reply (stub (after 3)) [GetClient]
              (Query ColumnLookup (JObj [(''columnId'', JStr ''a1'')])) = Inr ?column"
    by (simp add: stub_def answer_def after_def)
  note inst = bulk_move_reports_each_card [OF bulk_request_ids ne col, of "stub (after 3)" ?column]
  have simple: "BulkMoveCardsSimple (stub (after 3)) bulk_request
     = (Inr (NewToolResultText
          [(''cards_moved'', JNum 3),
           (''target_column_id'', JStr ''a1''),
           (''message'', JStr ''Initiated bulk move of 3 cards'')]),
        [])"
    using inst [THEN conjunct1] by (simp add: itoa_small numeral_3_eq_3)
  have run: "move_cards (stub (after 3)) ''PVT_1'' ''PVTSSF_1'' ''a1'' [''PVTI_1'', ''PVTI_2'', ''PVTI_3''] []
               [GetClient, Query ColumnLookup (JObj [(''columnId'', JStr ''a1'')])]
      = ([JObj [(''card_id'', JStr ''PVTI_1''), (''status'', JStr ''moved'')],
          JObj [(''card_id'', JStr ''PVTI_2''), (''status'', JStr ''failed''), (''error'', JStr ''remote error'')],
          JObj [(''card_id'', JStr ''PVTI_3''), (''status'', JStr ''moved'')]],
         [GetClient, Query ColumnLookup (JObj [(''columnId'', JStr ''a1'')]),
          Mutate updateProjectV2ItemFieldValue
           (JObj [(''projectId'', JStr ''PVT_1''), (''itemId'', JStr ''PVTI_1''),
                  (''fieldId'', JStr ''PVTSSF_1''),
                  (''value'', JObj [(''singleSelectOptionId'', JStr ''a1'')])]) JNull,
          Mutate updateProjectV2ItemFieldValue
           (JObj [(''projectId'', JStr ''PVT_1''), (''itemId'', JStr ''PVTI_2''),
                  (''fieldId'', JStr ''PVTSSF_1''),
                  (''value'', JObj [(''singleSelectOptionId'', JStr ''a1'')])]) JNull,
          Mutate updateProjectV2ItemFieldValue
           (JObj [(''projectId'', JStr ''PVT_1''), (''itemId'', JStr ''PVTI_3''),
                  (''fieldId'', JStr ''PVTSSF_1''),
                  (''value'', JObj [(''singleSelectOptionId'', JStr ''a1'')])]) JNull])"
    by (simp add: Let_def move_entry_def move_mutation_def item_field_input_def
          stub_def answer_def after_def)
  have whole: "BulkMoveCards (stub (after 3)) bulk_request
     = (Inr (NewToolResultText
         [(''success'', JBool True),
          (''total_cards'', JNum 3),
          (''moved_count'', JNum 2),
          (''failed_count'', JNum 1),
          (''target_column_id'', JStr ''a1''),
          (''results'', JArr [JObj [(''card_id'', JStr ''PVTI_1''), (''status'', JStr ''moved'')],
                             JObj [(''card_id'', JStr ''PVTI_2''), (''status'', JStr ''failed''),
                                   (''error'', JStr ''remote error'')],
                             JObj [(''card_id'', JStr ''PVTI_3''), (''status'', JStr ''moved'')]]),
          (''message'', JStr ''Moved 2 of 3 cards successfully'')]),
        [GetClient, Query ColumnLookup (JObj [(''columnId'', JStr ''a1'')]),
         Mutate updateProjectV2ItemFieldValue
           (JObj [(''projectId'', JStr ''PVT_1''), (''itemId'', JStr ''PVTI_1''),
                  (''fieldId'', JStr ''PVTSSF_1''),
                  (''value'', JObj [(''singleSelectOptionId'', JStr ''a1'')])]) JNull,
         Mutate updateProjectV2ItemFieldValue
           (JObj [(''projectId'', JStr ''PVT_1''), (''itemId'', JStr ''PVTI_2''),
                  (''fieldId'', JStr ''PVTSSF_1''),
                  (''value'', JObj [(''singleSelectOptionId'', JStr ''a1'')])]) JNull,
         Mutate updateProjectV2ItemFieldValue
           (JObj [(''projectId'', JStr ''PVT_1''), (''itemId'', JStr ''PVTI_3''),
                  (''fieldId'', JStr ''PVTSSF_1''),
                  (''value'', JObj [(''singleSelectOptionId'', JStr ''a1'')])]) JNull])"
    using client col cq
    by (simp add: BulkMoveCards_def bulk_request_ids Let_def run object_get_def slice_json_def itoa_small
          del: move_cards.simps)
  show ?thesis
    using whole simple by (intro conjI)
qed

text \<open>
  C4 as stated fails on \<open>BulkMoveCardsSimple\<close>, the other handler of \<open>bulk_move_cards\<close>: on
  three cards it makes no call and returns \<open>cards_moved\<close>, without \<open>results\<close>,
  \<open>moved_count\<close>, \<open>failed_count\<close> or \<open>success\<close>.
\<close>

theorem bulk_move_simple_counterexample:
  "fst (BulkMoveCardsSimple (stub never) bulk_request)
     = Inr (NewToolResultText
         [(''cards_moved'', JNum 3),
          (''target_column_id'', JStr ''a1''),
          (''message'', JStr ''Initiated bulk move of 3 cards'')])
   \<and> snd (BulkMoveCardsSimple (stub never) bulk_request) = []"
proof -
  have col: "RequiredParam_string bulk_request ''target_column_id'' = Inr ''a1''"
    by (simp add: bulk_request_def RequiredParam_string_def)
  show ?thesis
    by (simp add: BulkMoveCardsSimple_def bulk_request_ids col itoa_small)
qed

section \<open>Updating the fields of a card\<close>

lemma update_fields_skip:
  "update_fields env P C nodes fs updates sofar
   = update_fields env P C nodes (resolvable nodes fs) updates sofar"
  by (induction fs arbitrary: updates sofar) (auto simp: resolvable_def Let_def)

lemma update_fields_all:
  "\<forall>nv \<in> set todo. fieldID_of (fst nv) nodes \<noteq> [] \<Longrightarrow>
   update_fields env P C nodes todo updates sofar
   = (updates @ map (\<lambda>k. update_entry (fst (todo ! k)) (snd (todo ! k))
                        (updateField_reply env (sofar @ map (field_call P C nodes) (take k todo))
                           (field_call P C nodes (todo ! k))))
                  [0..<length todo],
      sofar @ map (field_call P C nodes) todo)"
proof (induction todo arbitrary: updates sofar)
  case Nil
  then show ?case by simp
next
  case (Cons nv rest)
  obtain n v where nv: "nv = (n, v)" by (cases nv)
  have u: "[0..<Suc (length rest)] = 0 # map Suc [0..<length rest]"
    by (simp add: upt_conv_Cons map_Suc_upt del: upt_Suc)
  from Cons.prems have r: "fieldID_of n nodes \<noteq> []" and rest: "\<forall>nv \<in> set rest. fieldID_of (fst nv) nodes \<noteq> []"
    by (simp_all add: nv)
  show ?case
    using r by (simp add: nv u Let_def Cons.IH [OF rest] comp_def field_call_def del: upt_Suc)
qed

lemma update_fields_eq:
  "update_fields env P C nodes fs updates sofar
   = (updates @ map (\<lambda>k. update_entry (fst (resolvable nodes fs ! k)) (snd (resolvable nodes fs ! k))
                        (updateField_reply env
                           (sofar @ map (field_call P C nodes) (take k (resolvable nodes fs)))
                           (field_call P C nodes (resolvable nodes fs ! k))))
                  [0..<length (resolvable nodes fs)],
      sofar @ map (field_call P C nodes) (resolvable nodes fs))"
proof -
  have "\<forall>nv \<in> set (resolvable nodes fs). fieldID_of (fst nv) nodes \<noteq> []"
    by (simp add: resolvable_def)
  from update_fields_all [OF this] show ?thesis
    by (subst update_fields_skip) simp
qed

text \<open>
  C10: once the client is acquired, \<open>card_id\<close> is given and the item is found,
  \<open>update_project_card\<close> returns \<open>success\<close> true whatever the replies to the field
  mutations; it issues one mutation per requested field that the item has, and \<open>updates\<close>
  has one entry per such field, tagged \<open>updated\<close>, or \<open>failed\<close> with the error message.
\<close>

theorem update_card_always_reports_success:
  assumes client: "getGQLClient env = None"
    and card: "RequiredParam_string request ''card_id'' = Inr cardID"
    and iq: "itemQuery_reply env [GetClient] (Query ItemLookup (JObj [(''itemId'', JStr cardID)])) = Inr item"
    and fs: "fs = (case OptionalParam_object request ''fields'' of None \<Rightarrow> [] | Some kvs \<Rightarrow> kvs)"
  shows "\<exists>updates.
      fst (UpdateProjectCard env request)
        = Inr (NewToolResultText
            [(''success'', JBool True),
             (''card_id'', JStr cardID),
             (''project_id'', JStr (ii_project_id item)),
             (''updates'', slice_json updates),
             (''message'', JStr (''Updated '' @ itoa (length updates) @ '' fields''))])
    \<and> snd (UpdateProjectCard env request)
        = [GetClient, Query ItemLookup (JObj [(''itemId'', JStr cardID)])]
          @ map (field_call (ii_project_id item) cardID (ii_fields item)) (resolvable (ii_fields item) fs)
    \<and> length updates = length (resolvable (ii_fields item) fs)
    \<and> map (\<lambda>u. object_get u ''field'') updates
        = map (\<lambda>nv. Some (JStr (fst nv))) (resolvable (ii_fields item) fs)
    \<and> (\<forall>k < length updates. \<forall>u. field_reply env cardID item fs k = Inr u \<longrightarrow>
          updates ! k = JObj [(''field'', JStr (fst (resolvable (ii_fields item) fs ! k))),
                              (''value'', snd (resolvable (ii_fields item) fs ! k)),
                              (''status'', JStr ''updated'')])
    \<and> (\<forall>k < length updates. \<forall>err. field_reply env cardID item fs k = Inl err \<longrightarrow>
          updates ! k = JObj [(''field'', JStr (fst (resolvable (ii_fields item) fs ! k))),
                              (''value'', snd (resolvable (ii_fields item) fs ! k)),
                              (''status'', JStr ''failed''), (''error'', JStr err)])"
proof -
  let ?P = "ii_project_id item" and ?nodes = "ii_fields item"
  let ?pre = "[GetClient, Query ItemLookup (JObj [(''itemId'', JStr cardID)])]"
  let ?todo = "resolvable ?nodes fs"
  define updates where "updates = map (\<lambda>k. update_entry (fst (?todo ! k)) (snd (?todo ! k))
                                           (field_reply env cardID item fs k)) [0..<length ?todo]"
  have run: "update_fields env ?P cardID ?nodes fs [] ?pre
             = (updates, ?pre @ map (field_call ?P cardID ?nodes) ?todo)"
    by (simp add: update_fields_eq updates_def field_reply_def Let_def)
  have res: "fst (UpdateProjectCard env request)
        = Inr (NewToolResultText
            [(''success'', JBool True),
             (''card_id'', JStr cardID),
             (''project_id'', JStr (ii_project_id item)),
             (''updates'', slice_json updates),
             (''message'', JStr (''Updated '' @ itoa (length updates) @ '' fields''))])"
    using client card iq run by (simp add: UpdateProjectCard_def Let_def fs [symmetric])
  have eff: "snd (UpdateProjectCard env request) = ?pre @ map (field_call ?P cardID ?nodes) ?todo"
    using client card iq run by (simp add: UpdateProjectCard_def Let_def fs [symmetric])
  have len: "length updates = length ?todo"
    by (simp add: updates_def)
  have names: "map (\<lambda>u. object_get u ''field'') updates = map (\<lambda>nv. Some (JStr (fst nv))) ?todo"
    by (rule nth_equalityI)
       (auto simp: updates_def update_entry_def object_get_def split: sum.splits)
  have ok: "\<forall>k < length updates. \<forall>u. field_reply env cardID item fs k = Inr u \<longrightarrow>
          updates ! k = JObj [(''field'', JStr (fst (?todo ! k))), (''value'', snd (?todo ! k)),
                              (''status'', JStr ''updated'')]"
    by (simp add: updates_def update_entry_def)
  have failed: "\<forall>k < length updates. \<forall>err. field_reply env cardID item fs k = Inl err \<longrightarrow>
          updates ! k = JObj [(''field'', JStr (fst (?todo ! k))), (''value'', snd (?todo ! k)),
                              (''status'', JStr ''failed''), (''error'', JStr err)]"
    by (simp add: updates_def update_entry_def)
  show ?thesis
    using res eff len names ok failed by blast
qed

text \<open>
  Every mutation failing: \<open>success\<close> is true, the three entries are tagged \<open>failed\<close>, the
  message counts them, and the name that is not a field of the item has no entry and no
  mutation.
\<close>

theorem update_card_always_reports_success_witness:
  "UpdateProjectCard (stub mutations_fail) card_request
     = (Inr (NewToolResultText
         [(''success'', JBool True),
          (''card_id'', JStr ''PVTI_1''),
          (''project_id'', JStr ''PVT_1''),
          (''updates'', JArr [JObj [(''field'', JStr ''Title''), (''value'', JStr ''Plan''),
                                   (''status'', JStr ''failed''), (''error'', JStr ''remote error'')],
                             JObj [(''field'', JStr ''Status''), (''value'', JStr ''Done''),
                                   (''status'', JStr ''failed''), (''error'', JStr ''remote error'')],
                             JObj [(''field'', JStr ''Estimate''), (''value'', JFloat (5 / 2)),
                                   (''status'', JStr ''failed''), (''error'', JStr ''remote error'')]]),
          (''message'', JStr ''Updated 3 fields'')]),
        [GetClient, Query ItemLookup (JObj [(''itemId'', JStr ''PVTI_1'')]),
         Mutate updateProjectV2ItemFieldValue
           (JObj [(''projectId'', JStr ''PVT_1''), (''itemId'', JStr ''PVTI_1''),
                  (''fieldId'', JStr ''PVTF_1''), (''value'', JObj [(''text'', JStr ''Plan'')])]) JNull,
         Mutate updateProjectV2ItemFieldValue
           (JObj [(''projectId'', JStr ''PVT_1''), (''itemId'', JStr ''PVTI_1''),
                  (''fieldId'', JStr ''PVTSSF_1''), (''value'', JObj [(''text'', JStr ''Done'')])]) JNull,
         Mutate updateProjectV2ItemFieldValue
           (JObj [(''projectId'', JStr ''PVT_1''), (''itemId'', JStr ''PVTI_1''),
                  (''fieldId'', JStr ''PVTF_2''), (''value'', JObj [(''number'', JFloat (5 / 2))])]) JNull])"
proof -
  let ?item = "\<lparr>ii_project_id = ''PVT_1'',
         ii_fields = [\<lparr>ifn_field_id = ''PVTF_1'', ifn_field_name = ''Title'',
                       ifn_single_id = [], ifn_single_name = []\<rparr>,
                      \<lparr>ifn_field_id = [], ifn_field_name = [],
                       ifn_single_id = ''PVTSSF_1'', ifn_single_name = ''Status''\<rparr>,
                      \<lparr>ifn_field_id = ''PVTF_2'', ifn_field_name = ''Estimate'',
                       ifn_single_id = [], ifn_single_name = []\<rparr>]\<rparr>"
  let ?fs = "[(''Title'', JStr ''Plan''), (''Nope'', JFloat 1), (''Status'', JStr ''Done''),
              (''Estimate'', JFloat (5 / 2))]"
  have client: "getGQLClient (stub mutations_fail) = None"
    by (simp add: stub_def)
  have card: "RequiredParam_string card_request ''card_id'' = Inr ''PVTI_1''"
    by (simp add: card_request_def RequiredParam_string_def)
  have iq: "itemQuery_reply (stub mutations_fail) [GetClient]
              (Query ItemLookup (JObj [(''itemId'', JStr ''PVTI_1'')])) = Inr ?item"
    by (simp add: stub_def answer_def mutations_fail_def)
  have fs: "?fs = (case OptionalParam_object card_request ''fields'' of None \<Rightarrow> [] | Some kvs \<Rightarrow> kvs)"
    by (simp add: card_request_def OptionalParam_object_def)
  have whole: "UpdateProjectCard (stub mutations_fail) card_request
     = (Inr (NewToolResultText
         [(''success'', JBool True),
          (''card_id'', JStr ''PVTI_1''),
          (''project_id'', JStr ''PVT_1''),
          (''updates'', JArr [JObj [(''field'', JStr ''Title''), (''value'', JStr ''Plan''),
                                   (''status'', JStr ''failed''), (''error'', JStr ''remote error'')],
                             JObj [(''field'', JStr ''Status''), (''value'', JStr ''Done''),
                                   (''status'', JStr ''failed''), (''error'', JStr ''remote error'')],
                             JObj [(''field'', JStr ''Estimate''), (''value'', JFloat (5 / 2)),
                                   (''status'', JStr ''failed''), (''error'', JStr ''remote error'')]]),
          (''message'', JStr ''Updated 3 fields'')]),
        [GetClient, Query ItemLookup (JObj [(''itemId'', JStr ''PVTI_1'')]),
         Mutate updateProjectV2ItemFieldValue
           (JObj [(''projectId'', JStr ''PVT_1''), (''itemId'', JStr ''PVTI_1''),
                  (''fieldId'', JStr ''PVTF_1''), (''value'', JObj [(''text'', JStr ''Plan'')])]) JNull,
         Mutate updateProjectV2ItemFieldValue
           (JObj [(''projectId'', JStr ''PVT_1''), (''itemId'', JStr ''PVTI_1''),
                  (''fieldId'', JStr ''PVTSSF_1''), (''value'', JObj [(''text'', JStr ''Done'')])]) JNull,
         Mutate updateProjectV2ItemFieldValue
           (JObj [(''projectId'', JStr ''PVT_1''), (''itemId'', JStr ''PVTI_1''),
                  (''fieldId'', JStr ''PVTF_2''), (''value'', JObj [(''number'', JFloat (5 / 2))])]) JNull])"
    using client card iq
    by (simp add: UpdateProjectCard_def fs [symmetric] Let_def update_entry_def slice_json_def
          itoa_small field_mutation_def item_field_input_def stub_def answer_def mutations_fail_def)
  show ?thesis
    using update_card_always_reports_success [OF client card iq fs]
    unfolding whole
    apply -
    apply (rule refl)
    done
qed

section \<open>The column tools that change nothing\<close>

lemma columnIDs_of_strings: "columnIDs_of (map JStr xs) acc = Some (acc @ xs)"
  by (induction xs arbitrary: acc) simp_all

lemma UpdateProjectColumn_updates:
  "[(''column_id'', JStr columnID)]
     @ string_entry request ''name'' ''name''
     @ string_entry request ''description'' ''description''
     @ number_entry request ''limit'' ''limit''
     @ string_entry request ''color'' ''color''
   = [(''column_id'', JStr columnID)]
     @ (case request ''name'' of
          Some (JStr s) \<Rightarrow> (if s \<noteq> [] then [(''name'', JStr s)] else []) | _ \<Rightarrow> [])
     @ (case request ''description'' of
          Some (JStr s) \<Rightarrow> (if s \<noteq> [] then [(''description'', JStr s)] else []) | _ \<Rightarrow> [])
     @ (case request ''limit'' of
          Some (JFloat f) \<Rightarrow> [(''limit'', JNum (int_of_float64 f))] | _ \<Rightarrow> [])
     @ (case request ''color'' of
          Some (JStr s) \<Rightarrow> (if s \<noteq> [] then [(''color'', JStr s)] else []) | _ \<Rightarrow> [])"
  by (simp add: string_entry_def number_entry_def)

text \<open>
  C5: \<open>create_project_column\<close>, \<open>update_project_column\<close>, \<open>delete_project_column\<close> and
  \<open>reorder_project_columns\<close> call no mutation, whatever the request and the remote side:
  the first acquires the client and makes one query, the other three make no call at all.
  On a valid request each returns the description of the intended change, with a message
  noting that the API manages columns as options of the Status field.
\<close>

theorem column_changes_issue_no_mutation:
  "(\<forall>m input variables. Mutate m input variables \<notin> set (snd (CreateProjectColumn env request)))
   \<and> snd (UpdateProjectColumn env request) = []
   \<and> snd (DeleteProjectColumn env request) = []
   \<and> snd (ReorderProjectColumns env request) = []
   \<and> (RequiredParam_string request ''board_id'' = Inr boardID
        \<longrightarrow> RequiredParam_string request ''name'' = Inr name
        \<longrightarrow> getGQLClient env = None
        \<longrightarrow> statusFieldQuery_reply env [GetClient] (Query StatusField (JObj [(''id'', JStr boardID)])) = Inr field
        \<longrightarrow> sf_id field \<noteq> []
        \<longrightarrow> CreateProjectColumn env request
            = (Inr (NewToolResultText
                 [(''field_id'', JStr (sf_id field)),
                  (''name'', JStr name),
                  (''description'', JStr (OptionalParam_string request ''description'')),
                  (''color'', JStr (OptionalParam_string request ''color'')),
                  (''limit'', JNum (OptionalIntParamWithDefault request ''limit'' 10)),
                  (''message'', JStr ''Column creation request submitted. Note: GitHub Projects API v2 manages columns as Status field options.'')]),
               [GetClient, Query StatusField (JObj [(''id'', JStr boardID)])]))
   \<and> (RequiredParam_string request ''column_id'' = Inr columnID
        \<longrightarrow> UpdateProjectColumn env request
            = (Inr (NewToolResultText
                 [(''column_id'', JStr columnID),
                  (''updates'',
                   JObj ([(''column_id'', JStr columnID)]
                         @ (case request ''name'' of
                              Some (JStr s) \<Rightarrow> (if s \<noteq> [] then [(''name'', JStr s)] else [])
                            | _ \<Rightarrow> [])
                         @ (case request ''description'' of
                              Some (JStr s) \<Rightarrow> (if s \<noteq> [] then [(''description'', JStr s)] else [])
                            | _ \<Rightarrow> [])
                         @ (case request ''limit'' of
                              Some (JFloat f) \<Rightarrow> [(''limit'', JNum (int_of_float64 f))]
                            | _ \<Rightarrow> [])
                         @ (case request ''color'' of
                              Some (JStr s) \<Rightarrow> (if s \<noteq> [] then [(''color'', JStr s)] else [])
                            | _ \<Rightarrow> []))),
                  (''message'', JStr ''Column update request submitted. Note: GitHub Projects API v2 manages columns as Status field options.'')]),
               [])
          \<and> DeleteProjectColumn env request
            = (Inr (NewToolResultText
                 [(''column_id'', JStr columnID),
                  (''archive_cards'', JBool (OptionalParam_bool request ''archive_cards'')),
                  (''message'', JStr ''Column deletion request submitted. Note: GitHub Projects API v2 manages columns as Status field options.'')]),
               []))
   \<and> (RequiredParam_string request ''board_id'' = Inr boardID
        \<longrightarrow> request ''column_order'' = Some (JArr (map JStr columnIDs))
        \<longrightarrow> ReorderProjectColumns env request
            = (Inr (NewToolResultText
                 [(''board_id'', JStr boardID),
                  (''column_order'', (if columnIDs = [] then JNull else JArr (map JStr columnIDs))),
                  (''message'', JStr ''Column reorder request submitted. Note: GitHub Projects API v2 manages columns as Status field options with specific ordering.'')]),
               []))"
proof -
  have c1: "\<forall>m input variables. Mutate m input variables \<notin> set (snd (CreateProjectColumn env request))"
    by (auto simp: CreateProjectColumn_def Let_def split: sum.splits option.splits)
  have c2: "snd (UpdateProjectColumn env request) = []"
    by (auto simp: UpdateProjectColumn_def Let_def split: sum.splits)
  have c3: "snd (DeleteProjectColumn env request) = []"
    by (auto simp: DeleteProjectColumn_def Let_def split: sum.splits)
  have c4: "snd (ReorderProjectColumns env request) = []"
    by (auto simp: ReorderProjectColumns_def Let_def split: sum.splits option.splits jvalue.splits)
  show ?thesis
    apply (intro conjI impI)
           apply (rule c1)
          apply (rule c2)
         apply (rule c3)
        apply (rule c4)
       apply (simp add: CreateProjectColumn_def Let_def)
      apply (simp only: UpdateProjectColumn_def Let_def UpdateProjectColumn_updates sum.case)
     apply (simp add: DeleteProjectColumn_def Let_def)
    apply (simp add: ReorderProjectColumns_def Let_def columnIDs_of_strings slice_json_def)
    done
qed

text \<open>
  The four handlers on a valid request with a limit of 2.7, which both handlers that read
  it cut to 2, and the update of a column with a limit of \<open>1e19\<close>.
\<close>

theorem column_changes_issue_no_mutation_witness:
  "CreateProjectColumn (stub never) column_request
     = (Inr (NewToolResultText
          [(''field_id'', JStr ''PVTSSF_1''), (''name'', JStr ''Doing''), (''description'', JStr []),
           (''color'', JStr []), (''limit'', JNum 2),
           (''message'', JStr ''Column creation request submitted. Note: GitHub Projects API v2 manages columns as Status field options.'')]),
        [GetClient, Query StatusField (JObj [(''id'', JStr ''PVT_1'')])])
   \<and> UpdateProjectColumn (stub never) column_request
     = (Inr (NewToolResultText
          [(''column_id'', JStr ''a1''),
           (''updates'', JObj [(''column_id'', JStr ''a1''), (''name'', JStr ''Doing''),
                              (''limit'', JNum 2)]),
           (''message'', JStr ''Column update request submitted. Note: GitHub Projects API v2 manages columns as Status field options.'')]),
        [])
   \<and> DeleteProjectColumn (stub never) column_request
     = (Inr (NewToolResultText
          [(''column_id'', JStr ''a1''), (''archive_cards'', JBool False),
           (''message'', JStr ''Column deletion request submitted. Note: GitHub Projects API v2 manages columns as Status field options.'')]),
        [])
   \<and> ReorderProjectColumns (stub never) column_request
     = (Inr (NewToolResultText
          [(''board_id'', JStr ''PVT_1''), (''column_order'', JArr [JStr ''a2'', JStr ''a1'']),
           (''message'', JStr ''Column reorder request submitted. Note: GitHub Projects API v2 manages columns as Status field options with specific ordering.'')]),
        [])
   \<and> UpdateProjectColumn (stub never) huge_limit_request
     = (Inr (NewToolResultText
          [(''column_id'', JStr ''a1''),
           (''updates'', JObj [(''column_id'', JStr ''a1''), (''limit'', JNum (- 9223372036854775808))]),
           (''message'', JStr ''Column update request submitted. Note: GitHub Projects API v2 manages columns as Status field options.'')]),
        [])"
proof -
  let ?field = "\<lparr>sf_id = ''PVTSSF_1'', sf_name = ''Status'',
                 sf_options = [\<lparr>opt_id = ''a1'', opt_name = ''Todo''\<rparr>]\<rparr>"
  have b: "RequiredParam_string column_request ''board_id'' = Inr ''PVT_1''"
    and n: "RequiredParam_string column_request ''name'' = Inr ''Doing''"
    and c: "RequiredParam_string column_request ''column_id'' = Inr ''a1''"
    and h: "RequiredParam_string huge_limit_request ''column_id'' = Inr ''a1''"
    by (simp_all add: column_request_def huge_limit_request_def RequiredParam_string_def)
  have g: "getGQLClient (stub never) = None"
    by (simp add: stub_def)
  have q: "statusFieldQuery_reply (stub never) [GetClient] (Query StatusField (JObj [(''id'', JStr ''PVT_1'')]))
           = Inr ?field"
    by (simp add: stub_def answer_def never_def)
  have f: "sf_id ?field \<noteq> []"
    by simp
  have o: "column_request ''column_order'' = Some (JArr (map JStr [''a2'', ''a1'']))"
    by (simp add: column_request_def)
  have "\<lfloor>27 / 10 :: rat\<rfloor> = 2"
    by (rule floor_unique) simp_all
  then have cut: "int_of_float64 (27 / 10) = 2"
    by (simp add: int_of_float64_def)
  have huge: "int_of_float64 10000000000000000000 = - 9223372036854775808"
    by (simp add: int_of_float64_def)
  have opt: "OptionalParam_string column_request ''description'' = []"
    "OptionalParam_string column_request ''color'' = []"
    "OptionalIntParamWithDefault column_request ''limit'' 10 = 2"
    "OptionalParam_bool column_request ''archive_cards'' = False"
    by (simp_all add: column_request_def OptionalParam_string_def OptionalIntParamWithDefault_def
          OptionalParam_bool_def cut)
  have args: "column_request ''name'' = Some (JStr ''Doing'')"
    "column_request ''description'' = None"
    "column_request ''limit'' = Some (JFloat (27 / 10))"
    "column_request ''color'' = None"
    "huge_limit_request ''name'' = None"
    "huge_limit_request ''description'' = None"
    "huge_limit_request ''limit'' = Some (JFloat (10 ^ 19))"
    "huge_limit_request ''color'' = None"
    by (simp_all add: column_request_def huge_limit_request_def)
  note inst = column_changes_issue_no_mutation
      [of "stub never" column_request "''PVT_1''" "''Doing''" ?field "''a1''" "[''a2'', ''a1'']"]
  note rest4 = inst [THEN conjunct2, THEN conjunct2, THEN conjunct2, THEN conjunct2]
  note inst' = column_changes_issue_no_mutation
      [of "stub never" huge_limit_request _ _ _ "''a1''",
       THEN conjunct2, THEN conjunct2, THEN conjunct2, THEN conjunct2]
  have w1: "CreateProjectColumn (stub never) column_request
     = (Inr (NewToolResultText
          [(''field_id'', JStr ''PVTSSF_1''), (''name'', JStr ''Doing''), (''description'', JStr []),
           (''color'', JStr []), (''limit'', JNum 2),
           (''message'', JStr ''Column creation request submitted. Note: GitHub Projects API v2 manages columns as Status field options.'')]),
        [GetClient, Query StatusField (JObj [(''id'', JStr ''PVT_1'')])])"
    using rest4 [THEN conjunct1, rule_format, OF b n g q f] by (simp add: opt)
  have w2: "UpdateProjectColumn (stub never) column_request
     = (Inr (NewToolResultText
          [(''column_id'', JStr ''a1''),
           (''updates'', JObj [(''column_id'', JStr ''a1''), (''name'', JStr ''Doing''),
                              (''limit'', JNum 2)]),
           (''message'', JStr ''Column update request submitted. Note: GitHub Projects API v2 manages columns as Status field options.'')]),
        [])"
    using rest4 [THEN conjunct2, THEN conjunct1, rule_format, OF c, THEN conjunct1]
    by (simp add: args cut)
  have w3: "DeleteProjectColumn (stub never) column_request
     = (Inr (NewToolResultText
          [(''column_id'', JStr ''a1''), (''archive_cards'', JBool False),
           (''message'', JStr ''Column deletion request submitted. Note: GitHub Projects API v2 manages columns as Status field options.'')]),
        [])"
    using rest4 [THEN conjunct2, THEN conjunct1, rule_format, OF c, THEN conjunct2]
    by (simp add: opt)
  have w4: "ReorderProjectColumns (stub never) column_request
     = (Inr (NewToolResultText
          [(''board_id'', JStr ''PVT_1''), (''column_order'', JArr [JStr ''a2'', JStr ''a1'']),
           (''message'', JStr ''Column reorder request submitted. Note: GitHub Projects API v2 manages columns as Status field options with specific ordering.'')]),
        [])"
    using rest4 [THEN conjunct2, THEN conjunct2, rule_format, OF b o] by simp
  have w5: "UpdateProjectColumn (stub never) huge_limit_request
     = (Inr (NewToolResultText
          [(''column_id'', JStr ''a1''),
           (''updates'', JObj [(''column_id'', JStr ''a1''), (''limit'', JNum (- 9223372036854775808))]),
           (''message'', JStr ''Column update request submitted. Note: GitHub Projects API v2 manages columns as Status field options.'')]),
        [])"
    using inst' [THEN conjunct2, THEN conjunct1, rule_format, OF h, THEN conjunct1]
    by (simp add: args huge)
  show ?thesis
    using w1 w2 w3 w4 w5 by (intro conjI)
qed

section \<open>A required parameter that is missing\<close>

lemma RequiredParam_string_Inl:
  "\<not> has_type PString (r p) \<Longrightarrow> \<exists>e. RequiredParam_string r p = Inl e"
  by (cases "r p"; cases "the (r p)") (auto simp: RequiredParam_string_def)

lemma RequiredParam_bool_Inl:
  "\<not> has_type PBoolean (r p) \<Longrightarrow> \<exists>e. RequiredParam_bool r p = Inl e"
  by (cases "r p"; cases "the (r p)") (auto simp: RequiredParam_bool_def)

lemma one_string:
  assumes "lacks request [(p, PString)]"
  obtains e where "RequiredParam_string request p = Inl e"
  using assms RequiredParam_string_Inl by (auto simp: lacks_def)

lemma two_strings:
  assumes "lacks request [(p, PString), (q, PString)]"
  shows "(\<exists>e. RequiredParam_string request p = Inl e) \<or> (\<exists>e. RequiredParam_string request q = Inl e)"
  using assms RequiredParam_string_Inl by (auto simp: lacks_def)

lemma board_handlers:
  "lacks request [(''name'', PString), (''owner'', PString)] \<Longrightarrow>
     tool_error (CreateProjectBoard env request) \<and> snd (CreateProjectBoard env request) = []"
  "lacks request [(''board_id'', PString)] \<Longrightarrow>
     tool_error (UpdateProjectBoard env request) \<and> snd (UpdateProjectBoard env request) = []"
  "lacks request [(''board_id'', PString), (''confirm'', PBoolean)] \<Longrightarrow>
     tool_error (DeleteProjectBoard env request) \<and> snd (DeleteProjectBoard env request) = []"
  "lacks request [(''owner'', PString)] \<Longrightarrow>
     tool_error (ListProjectBoards env request) \<and> snd (ListProjectBoards env request) = []"
  "lacks request [(''board_id'', PString)] \<Longrightarrow>
     tool_error (GetProjectBoard env request) \<and> snd (GetProjectBoard env request) = []"
proof -
  show "lacks request [(''name'', PString), (''owner'', PString)] \<Longrightarrow>
     tool_error (CreateProjectBoard env request) \<and> snd (CreateProjectBoard env request) = []"
    by (drule two_strings) (auto simp: CreateProjectBoard_def tool_error_def split: sum.splits)
  show "lacks request [(''board_id'', PString)] \<Longrightarrow>
     tool_error (UpdateProjectBoard env request) \<and> snd (UpdateProjectBoard env request) = []"
    by (erule one_string) (simp add: UpdateProjectBoard_def tool_error_def)
  show "lacks request [(''board_id'', PString), (''confirm'', PBoolean)] \<Longrightarrow>
     tool_error (DeleteProjectBoard env request) \<and> snd (DeleteProjectBoard env request) = []"
    using RequiredParam_string_Inl [of request "''board_id''"] RequiredParam_bool_Inl [of request "''confirm''"]
    by (auto simp: lacks_def DeleteProjectBoard_def tool_error_def split: sum.splits)
  show "lacks request [(''owner'', PString)] \<Longrightarrow>
     tool_error (ListProjectBoards env request) \<and> snd (ListProjectBoards env request) = []"
    by (erule one_string) (simp add: ListProjectBoards_def tool_error_def)
  show "lacks request [(''board_id'', PString)] \<Longrightarrow>
     tool_error (GetProjectBoard env request) \<and> snd (GetProjectBoard env request) = []"
    by (erule one_string) (simp add: GetProjectBoard_def tool_error_def)
qed

lemma column_handlers:
  "lacks request [(''board_id'', PString), (''name'', PString)] \<Longrightarrow>
     tool_error (CreateProjectColumn env request) \<and> snd (CreateProjectColumn env request) = []"
  "lacks request [(''column_id'', PString)] \<Longrightarrow>
     tool_error (UpdateProjectColumn env request) \<and> snd (UpdateProjectColumn env request) = []"
  "lacks request [(''column_id'', PString)] \<Longrightarrow>
     tool_error (DeleteProjectColumn env request) \<and> snd (DeleteProjectColumn env request) = []"
  "lacks request [(''board_id'', PString), (''column_order'', PArray)] \<Longrightarrow>
     tool_error (ReorderProjectColumns env request) \<and> snd (ReorderProjectColumns env request) = []"
  "lacks request [(''board_id'', PString)] \<Longrightarrow>
     tool_error (ListProjectColumns env request) \<and> snd (ListProjectColumns env request) = []"
  "lacks request [(''column_id'', PString)] \<Longrightarrow>
     tool_error (GetProjectColumn env request) \<and> snd (GetProjectColumn env request) = []"
proof -
  show "lacks request [(''board_id'', PString), (''name'', PString)] \<Longrightarrow>
     tool_error (CreateProjectColumn env request) \<and> snd (CreateProjectColumn env request) = []"
    by (drule two_strings) (auto simp: CreateProjectColumn_def tool_error_def split: sum.splits)
  show "lacks request [(''column_id'', PString)] \<Longrightarrow>
     tool_error (UpdateProjectColumn env request) \<and> snd (UpdateProjectColumn env request) = []"
    by (erule one_string) (simp add: UpdateProjectColumn_def tool_error_def)
  show "lacks request [(''column_id'', PString)] \<Longrightarrow>
     tool_error (DeleteProjectColumn env request) \<and> snd (DeleteProjectColumn env request) = []"
    by (erule one_string) (simp add: DeleteProjectColumn_def tool_error_def)
  show "lacks request [(''board_id'', PString), (''column_order'', PArray)] \<Longrightarrow>
     tool_error (ReorderProjectColumns env request) \<and> snd (ReorderProjectColumns env request) = []"
    using RequiredParam_string_Inl [of request "''board_id''"]
    by (cases "request ''column_order''"; cases "the (request ''column_order'')")
       (auto simp: lacks_def ReorderProjectColumns_def tool_error_def split: sum.splits)
  show "lacks request [(''board_id'', PString)] \<Longrightarrow>
     tool_error (ListProjectColumns env request) \<and> snd (ListProjectColumns env request) = []"
    by (erule one_string) (simp add: ListProjectColumns_def tool_error_def)
  show "lacks request [(''column_id'', PString)] \<Longrightarrow>
     tool_error (GetProjectColumn env request) \<and> snd (GetProjectColumn env request) = []"
    by (erule one_string) (simp add: GetProjectColumn_def tool_error_def)
qed

lemma card_handlers:
  "lacks request [(''card_id'', PString), (''column_id'', PString)] \<Longrightarrow>
     tool_error (MoveProjectCard env request) \<and> snd (MoveProjectCard env request) = [GetClient]"
  "lacks request [(''card_id'', PString)] \<Longrightarrow>
     tool_error (UpdateProjectCard env request) \<and> snd (UpdateProjectCard env request) = [GetClient]"
  "lacks request [(''card_id'', PString)] \<Longrightarrow>
     tool_error (RemoveCardFromProject env request) \<and> snd (RemoveCardFromProject env request) = [GetClient]"
  "lacks request [(''card_ids'', PArray), (''target_column_id'', PString)] \<Longrightarrow>
     tool_error (BulkMoveCards env request) \<and> snd (BulkMoveCards env request) = [GetClient]"
proof -
  show "lacks request [(''card_id'', PString), (''column_id'', PString)] \<Longrightarrow>
     tool_error (MoveProjectCard env request) \<and> snd (MoveProjectCard env request) = [GetClient]"
    by (drule two_strings) (auto simp: MoveProjectCard_def tool_error_def split: sum.splits option.splits)
  show "lacks request [(''card_id'', PString)] \<Longrightarrow>
     tool_error (UpdateProjectCard env request) \<and> snd (UpdateProjectCard env request) = [GetClient]"
    by (erule one_string) (simp add: UpdateProjectCard_def tool_error_def split: option.splits)
  show "lacks request [(''card_id'', PString)] \<Longrightarrow>
     tool_error (RemoveCardFromProject env request) \<and> snd (RemoveCardFromProject env request) = [GetClient]"
    by (erule one_string) (simp add: RemoveCardFromProject_def tool_error_def split: option.splits)
  show "lacks request [(''card_ids'', PArray), (''target_column_id'', PString)] \<Longrightarrow>
     tool_error (BulkMoveCards env request) \<and> snd (BulkMoveCards env request) = [GetClient]"
    using RequiredParam_string_Inl [of request "''target_column_id''"]
    by (cases "request ''card_ids''"; cases "the (request ''card_ids'')")
       (auto simp: lacks_def BulkMoveCards_def tool_error_def OptionalStringArrayParam_def
             split: sum.splits option.splits)
qed

lemma simple_handlers:
  "lacks request [(''card_id'', PString), (''column_id'', PString)] \<Longrightarrow>
     tool_error (MoveProjectCardSimple env request) \<and> snd (MoveProjectCardSimple env request) = []"
  "lacks request [(''card_id'', PString)] \<Longrightarrow>
     tool_error (UpdateProjectCardSimple env request) \<and> snd (UpdateProjectCardSimple env request) = []"
  "lacks request [(''card_id'', PString)] \<Longrightarrow>
     tool_error (RemoveCardFromProjectSimple env request) \<and> snd (RemoveCardFromProjectSimple env request) = []"
  "lacks request [(''card_ids'', PArray), (''target_column_id'', PString)] \<Longrightarrow>
     tool_error (BulkMoveCardsSimple env request) \<and> snd (BulkMoveCardsSimple env request) = []"
proof -
  show "lacks request [(''card_id'', PString), (''column_id'', PString)] \<Longrightarrow>
     tool_error (MoveProjectCardSimple env request) \<and> snd (MoveProjectCardSimple env request) = []"
    by (drule two_strings) (auto simp: MoveProjectCardSimple_def tool_error_def split: sum.splits)
  show "lacks request [(''card_id'', PString)] \<Longrightarrow>
     tool_error (UpdateProjectCardSimple env request) \<and> snd (UpdateProjectCardSimple env request) = []"
    by (erule one_string) (simp add: UpdateProjectCardSimple_def tool_error_def)
  show "lacks request [(''card_id'', PString)] \<Longrightarrow>
     tool_error (RemoveCardFromProjectSimple env request) \<and> snd (RemoveCardFromProjectSimple env request) = []"
    by (erule one_string) (simp add: RemoveCardFromProjectSimple_def tool_error_def)
  show "lacks request [(''card_ids'', PArray), (''target_column_id'', PString)] \<Longrightarrow>
     tool_error (BulkMoveCardsSimple env request) \<and> snd (BulkMoveCardsSimple env request) = []"
    using RequiredParam_string_Inl [of request "''target_column_id''"]
    by (cases "request ''card_ids''"; cases "the (request ''card_ids'')")
       (auto simp: lacks_def BulkMoveCardsSimple_def tool_error_def OptionalStringArrayParam_def
             split: sum.splits)
qed

lemma add_card_simple:
  "lacks request [(''board_id'', PString), (''content_id'', PString)] \<Longrightarrow>
     tool_error (AddCardToProjectSimple env request) \<and> snd (AddCardToProjectSimple env request) = []"
  by (drule two_strings) (auto simp: AddCardToProjectSimple_def tool_error_def split: sum.splits)

text \<open>
  C1, amended: if a required parameter is absent or of the wrong type, every handler
  returns a tool-level error and issues no query and no mutation. The board handlers, the
  column handlers and the simplified card handlers make no call at all; the handlers
  \<open>MoveProjectCard\<close>, \<open>UpdateProjectCard\<close>, \<open>RemoveCardFromProject\<close> and \<open>BulkMoveCards\<close>
  acquire the client from the factory before they read their parameters, and that
  acquisition is their only call.
\<close>

theorem missing_parameter_is_a_tool_error:
  "(\<forall>(name, required, handler) \<in> set (board_tools @ column_tools @ simple_card_tools).
       lacks request required \<longrightarrow>
       tool_error (handler env request) \<and> snd (handler env request) = [])
   \<and> (\<forall>(name, required, handler) \<in> set card_tools.
       lacks request required \<longrightarrow>
       tool_error (handler env request) \<and> snd (handler env request) = [GetClient])"
proof (intro conjI)
  show "\<forall>(name, required, handler) \<in> set (board_tools @ column_tools @ simple_card_tools).
       lacks request required \<longrightarrow>
       tool_error (handler env request) \<and> snd (handler env request) = []"
    unfolding board_tools_def column_tools_def simple_card_tools_def
    using board_handlers [of request env] column_handlers [of request env]
      simple_handlers [of request env] add_card_simple [of request env]
    by simp
  show "\<forall>(name, required, handler) \<in> set card_tools.
       lacks request required \<longrightarrow>
       tool_error (handler env request) \<and> snd (handler env request) = [GetClient]"
    unfolding card_tools_def using card_handlers [of request env] by simp
qed

text \<open>A request without arguments, on \<open>delete_project_board\<close> and on \<open>bulk_move_cards\<close>.\<close>

theorem missing_parameter_is_a_tool_error_witness:
  "fst (DeleteProjectBoard (stub never) no_arguments)
     = Inr (NewToolResultError ''missing required parameter: board_id'')
   \<and> snd (DeleteProjectBoard (stub never) no_arguments) = []
   \<and> fst (BulkMoveCards (stub never) no_arguments)
     = Inr (NewToolResultError ''card_ids array cannot be empty'')
   \<and> snd (BulkMoveCards (stub never) no_arguments) = [GetClient]"
proof -
  have l1: "lacks no_arguments [(''board_id'', PString), (''confirm'', PBoolean)]"
    and l2: "lacks no_arguments [(''card_ids'', PArray), (''target_column_id'', PString)]"
    by (simp_all add: lacks_def no_arguments_def)
  note inst = missing_parameter_is_a_tool_error [of no_arguments "stub never"]
  have m1: "(''delete_project_board'', [(''board_id'', PString), (''confirm'', PBoolean)], DeleteProjectBoard)
            \<in> set (board_tools @ column_tools @ simple_card_tools)"
    by (simp add: board_tools_def)
  have m2: "(''bulk_move_cards'', [(''card_ids'', PArray), (''target_column_id'', PString)], BulkMoveCards)
            \<in> set card_tools"
    by (simp add: card_tools_def)
  have e1: "snd (DeleteProjectBoard (stub never) no_arguments) = []"
    using inst [THEN conjunct1, rule_format, OF m1] l1 by simp
  have e2: "snd (BulkMoveCards (stub never) no_arguments) = [GetClient]"
    using inst [THEN conjunct2, rule_format, OF m2] l2 by simp
  have r1: "fst (DeleteProjectBoard (stub never) no_arguments)
     = Inr (NewToolResultError ''missing required parameter: board_id'')"
    by (simp add: DeleteProjectBoard_def RequiredParam_string_def no_arguments_def)
  have r2: "fst (BulkMoveCards (stub never) no_arguments)
     = Inr (NewToolResultError ''card_ids array cannot be empty'')"
    by (simp add: BulkMoveCards_def OptionalStringArrayParam_def no_arguments_def stub_def)
  show ?thesis
    using e1 e2 r1 r2 by (intro conjI)
qed

text \<open>
  C1 as stated fails on \<open>MoveProjectCard\<close>: \<open>card_id\<close> is absent and the client has been
  acquired from the factory.
\<close>

theorem missing_parameter_is_a_tool_error_counterexample:
  "lacks no_arguments [(''card_id'', PString), (''column_id'', PString)]
   \<and> snd (MoveProjectCard (stub never) no_arguments) = [GetClient]
   \<and> fst (MoveProjectCard (stub never) no_arguments)
     = Inr (NewToolResultError ''missing required parameter: card_id'')"
  by (simp add: lacks_def MoveProjectCard_def RequiredParam_string_def no_arguments_def stub_def)

end
